theory Spec2Isabelle
  imports Complex_Main "HOL-Library.Sublist"
begin

section \<open>Python values decoded from JSON\<close>

text \<open>
  The service handles decoded JSON: \<open>response.json()\<close> yields \<open>None\<close>, booleans,
  unbounded integers, floats, strings, lists and dicts. Strings are kept as their UTF-8
  bytes. A dict is an association list in insertion order; a lookup finds the first
  entry of a key (a decoded JSON object has each key once).

  A float is an IEEE double: a sign and an exact rational magnitude, an infinity, or
  NaN. The sign is kept apart from the magnitude so that \<open>-0.0\<close> is a value.
\<close>

datatype pyfloat = Finite bool rat | Infinity bool | NaN

datatype pyval =
    PNone
  | PBool bool
  | PInt int
  | PFloat pyfloat
  | PStr string
  | PList "pyval list"
  | PDict "(string \<times> pyval) list"

text \<open>
  The exceptions the modelled code can raise. All of them are subclasses of
  \<open>Exception\<close>, so every \<open>except Exception\<close> and every bare \<open>except\<close> of the source
  catches each of them. \<open>RequestException\<close> stands for whatever \<open>requests.get\<close>
  raises (connection error, timeout); \<open>JSONDecodeError\<close> for a body that
  \<open>response.json()\<close> cannot decode.
\<close>

datatype pyexn =
    AttributeError | TypeError | KeyError | IndexError | ValueError | OverflowError
  | RequestException | JSONDecodeError

type_synonym 'a result = "pyexn + 'a"

definition ebind :: "'a result \<Rightarrow> ('a \<Rightarrow> 'b result) \<Rightarrow> 'b result" where
  "ebind m f = (case m of Inl e \<Rightarrow> Inl e | Inr x \<Rightarrow> f x)"

text \<open>
  The builtins whose exact behaviour depends on Unicode tables, on the locale or on the
  platform are parameters of the model: \<open>float()\<close> on a string with non-ASCII
  characters (Unicode digits and spaces are accepted), \<open>repr\<close> of a float and of a
  string (used by \<open>str\<close> of a list or dict), and
  \<open>datetime.strptime(s, "%Y-%m-%dT%H:%M:%SZ").strftime("%d-%b-%Y %H:%M UTC")\<close>, with
  \<open>None\<close> when the expression raises.
\<close>

record builtins =
  float_of_nonascii :: "string \<Rightarrow> pyfloat option"
  repr_float :: "pyfloat \<Rightarrow> string"
  repr_str :: "string \<Rightarrow> string"
  strptime_strftime :: "string \<Rightarrow> string option"

subsection \<open>Doubles\<close>

definition round_half_even :: "rat \<Rightarrow> int" where
  "round_half_even q =
     (let f = \<lfloor>q\<rfloor>; r = q - of_int f
      in if r < 1 / 2 then f else if 1 / 2 < r then f + 1 else if even f then f else f + 1)"

text \<open>The number of bits of a positive integer.\<close>

function bitlen :: "int \<Rightarrow> int" where
  "bitlen n = (if n \<le> 0 then 0 else 1 + bitlen (n div 2))"
  by pat_completeness auto
termination
  by (relation "measure nat") auto

declare bitlen.simps [simp del]

text \<open>\<open>ilog2 q\<close> is \<open>\<lfloor>log\<^sub>2 q\<rfloor>\<close> for a positive rational \<open>q\<close>.\<close>

definition ilog2 :: "rat \<Rightarrow> int" where
  "ilog2 q =
     (let (a, b) = quotient_of q;
          d = bitlen a - bitlen b
      in if power_int 2 d \<le> q then d else d - 1)"

text \<open>
  Rounding a non-negative rational to the nearest double, ties to even: 53 significant
  bits, the exponent of the last bit not below \<open>-1074\<close> (subnormals), and infinity
  from \<open>2\<^sup>1\<^sup>0\<^sup>2\<^sup>4\<close> on, which is reached when the last bit's exponent exceeds 971 or the
  significand rounds up to \<open>2\<^sup>5\<^sup>3\<close> at exponent 971.
\<close>

definition double_of_rat :: "bool \<Rightarrow> rat \<Rightarrow> pyfloat" where
  "double_of_rat s q =
     (if q \<le> 0 then Finite s 0
      else let e = max (ilog2 q - 52) (- 1074);
               m = round_half_even (q / power_int 2 e)
           in if 971 < e \<or> (e = 971 \<and> 9007199254740992 \<le> m) then Infinity s
              else Finite s (of_int m * power_int 2 e))"

text \<open>\<open>x * k\<close> and \<open>x / k\<close> for a positive finite \<open>k\<close>: the exact result, rounded once.\<close>

fun float_scale :: "pyfloat \<Rightarrow> rat \<Rightarrow> pyfloat" where
  "float_scale (Finite s q) k = double_of_rat s (q * k)"
| "float_scale (Infinity s) k = Infinity s"
| "float_scale NaN k = NaN"

fun float_magnitude :: "pyfloat \<Rightarrow> rat" where
  "float_magnitude (Finite s q) = q"
| "float_magnitude (Infinity s) = 0"
| "float_magnitude NaN = 0"

text \<open>The literal \<open>1.60934\<close> of the source is the double nearest to it.\<close>

definition mi_to_km :: rat where
  "mi_to_km = float_magnitude (double_of_rat False (160934 / 100000))"

fun float_nonzero :: "pyfloat \<Rightarrow> bool" where
  "float_nonzero (Finite s q) = (q \<noteq> 0)"
| "float_nonzero (Infinity s) = True"
| "float_nonzero NaN = True"

fun float_positive :: "pyfloat \<Rightarrow> bool" where
  "float_positive (Finite s q) = (\<not> s \<and> 0 < q)"
| "float_positive (Infinity s) = (\<not> s)"
| "float_positive NaN = False"

subsection \<open>Decimal text\<close>

definition digit_char :: "int \<Rightarrow> char" where
  "digit_char d = ''0123456789'' ! nat d"

text \<open>The decimal digits of a non-negative integer.\<close>

function str_nat :: "int \<Rightarrow> string" where
  "str_nat n =
     (if n < 10 then [digit_char n]
      else str_nat (n div 10) @ [digit_char (n mod 10)])"
  by pat_completeness auto
termination
  by (relation "measure nat") auto

declare str_nat.simps [simp del]

definition str_int :: "int \<Rightarrow> string" where
  "str_int i = (if i < 0 then ''-'' @ str_nat (- i) else str_nat i)"

text \<open>
  The format specification \<open>.1f\<close>: one digit after the point, the exact binary value
  rounded correctly (ties to even); \<open>inf\<close> and \<open>nan\<close> for the special values.
\<close>

definition show_tenths :: "bool \<Rightarrow> int \<Rightarrow> string" where
  "show_tenths s n = (if s then ''-'' else []) @ str_nat (n div 10) @ ''.'' @ str_nat (n mod 10)"

fun format_1f :: "pyfloat \<Rightarrow> string" where
  "format_1f (Finite s q) = show_tenths s (round_half_even (q * 10))"
| "format_1f (Infinity s) = (if s then ''-inf'' else ''inf'')"
| "format_1f NaN = ''nan''"

subsection \<open>\<open>float()\<close>\<close>

definition is_space :: "char \<Rightarrow> bool" where
  "is_space c = (c \<in> set [CHR 0x20, CHR 0x09, CHR 0x0A, CHR 0x0B, CHR 0x0C, CHR 0x0D])"

definition is_digit :: "char \<Rightarrow> bool" where
  "is_digit c = (48 \<le> (of_char c :: int) \<and> (of_char c :: int) \<le> 57)"

definition digit_of :: "char \<Rightarrow> int" where
  "digit_of c = of_char c - 48"

definition int_of_digits :: "string \<Rightarrow> int" where
  "int_of_digits ds = foldl (\<lambda>n c. 10 * n + digit_of c) 0 ds"

definition strip :: "string \<Rightarrow> string" where
  "strip s = rev (dropWhile is_space (rev (dropWhile is_space s)))"

definition lower_ascii :: "char \<Rightarrow> char" where
  "lower_ascii c =
     (if 65 \<le> (of_char c :: int) \<and> (of_char c :: int) \<le> 90 then char_of (of_char c + 32 :: int)
      else c)"

text \<open>
  Underscores are allowed in a numeric literal only between two digits; \<open>prev\<close> is the
  character before, \<open>NUL\<close> at the start.
\<close>

fun underscores_ok :: "char \<Rightarrow> string \<Rightarrow> bool" where
  "underscores_ok prev [] = (prev \<noteq> CHR ''_'')"
| "underscores_ok prev (c # cs) =
     ((if c = CHR ''_'' then is_digit prev else prev \<noteq> CHR ''_'' \<or> is_digit c)
      \<and> underscores_ok c cs)"

definition split_sign :: "string \<Rightarrow> bool \<times> string" where
  "split_sign s =
     (case s of
        [] \<Rightarrow> (False, s)
      | c # cs \<Rightarrow> if c = CHR ''-'' then (True, cs) else if c = CHR ''+'' then (False, cs)
                 else (False, s))"

definition scale10 :: "int \<Rightarrow> int \<Rightarrow> rat" where
  "scale10 n e = of_int n * power_int 10 e"

text \<open>
  An unsigned decimal literal: digits, an optional point and digits, at least one digit
  in all, and an optional exponent \<open>e\<close> or \<open>E\<close> with an optional sign and at least one
  digit. The whole text must be consumed.
\<close>

definition parse_decimal :: "string \<Rightarrow> rat option" where
  "parse_decimal s =
     (let ip = takeWhile is_digit s;
          r1 = dropWhile is_digit s;
          (fp, r2) = (case r1 of
                        [] \<Rightarrow> ([], r1)
                      | c # cs \<Rightarrow> if c = CHR ''.''
                                 then (takeWhile is_digit cs, dropWhile is_digit cs)
                                 else ([], r1));
          mant = int_of_digits (ip @ fp);
          shift = - int (length fp)
      in if ip = [] \<and> fp = [] then None
         else (case r2 of
                 [] \<Rightarrow> Some (scale10 mant shift)
               | c # cs \<Rightarrow>
                   if c = CHR ''e'' \<or> c = CHR ''E'' then
                     (let (neg, ds) = split_sign cs;
                          ex = int_of_digits ds
                      in if ds \<noteq> [] \<and> list_all is_digit ds
                         then Some (scale10 mant ((if neg then - ex else ex) + shift))
                         else None)
                   else None))"

text \<open>
  \<open>float(s)\<close> for ASCII text: the underscore rule on the whole text, surrounding
  whitespace stripped, a sign, then \<open>inf\<close>, \<open>infinity\<close> or \<open>nan\<close> in any case, or a
  decimal literal rounded to the nearest double. \<open>None\<close> is \<open>ValueError\<close>.
\<close>

definition float_of_ascii :: "string \<Rightarrow> pyfloat option" where
  "float_of_ascii s0 =
     (if \<not> underscores_ok (CHR 0x00) s0 then None
      else let (neg, body) = split_sign (strip (filter (\<lambda>c. c \<noteq> CHR ''_'') s0));
               lb = map lower_ascii body
           in if lb = ''inf'' \<or> lb = ''infinity'' then Some (Infinity neg)
              else if lb = ''nan'' then Some NaN
              else map_option (double_of_rat neg) (parse_decimal body))"

definition is_ascii :: "string \<Rightarrow> bool" where
  "is_ascii s = list_all (\<lambda>c. (of_char c :: int) < 128) s"

text \<open>
  \<open>float(v)\<close>: a float is itself, a bool is 1.0 or 0.0, an int is rounded to the
  nearest double and raises \<open>OverflowError\<close> when that is out of range, a string is
  parsed (\<open>ValueError\<close> when it is no number), anything else is a \<open>TypeError\<close>.
\<close>

fun py_float :: "builtins \<Rightarrow> pyval \<Rightarrow> pyfloat result" where
  "py_float rt (PFloat x) = Inr x"
| "py_float rt (PBool b) = Inr (Finite False (if b then 1 else 0))"
| "py_float rt (PInt i) =
     (case double_of_rat (i < 0) (of_int \<bar>i\<bar>) of
        Infinity s \<Rightarrow> Inl OverflowError
      | x \<Rightarrow> Inr x)"
| "py_float rt (PStr s) =
     (case (if is_ascii s then float_of_ascii s else float_of_nonascii rt s) of
        None \<Rightarrow> Inl ValueError
      | Some x \<Rightarrow> Inr x)"
| "py_float rt PNone = Inl TypeError"
| "py_float rt (PList xs) = Inl TypeError"
| "py_float rt (PDict kvs) = Inl TypeError"

subsection \<open>Truthiness, \<open>str\<close>, and access\<close>

fun py_truthy :: "pyval \<Rightarrow> bool" where
  "py_truthy PNone = False"
| "py_truthy (PBool b) = b"
| "py_truthy (PInt i) = (i \<noteq> 0)"
| "py_truthy (PFloat x) = float_nonzero x"
| "py_truthy (PStr s) = (s \<noteq> [])"
| "py_truthy (PList xs) = (xs \<noteq> [])"
| "py_truthy (PDict kvs) = (kvs \<noteq> [])"

fun join_str :: "string \<Rightarrow> string list \<Rightarrow> string" where
  "join_str sep [] = []"
| "join_str sep [x] = x"
| "join_str sep (x # y # ys) = x @ sep @ join_str sep (y # ys)"

fun py_repr :: "builtins \<Rightarrow> pyval \<Rightarrow> string" where
  "py_repr rt PNone = ''None''"
| "py_repr rt (PBool b) = (if b then ''True'' else ''False'')"
| "py_repr rt (PInt i) = str_int i"
| "py_repr rt (PFloat x) = repr_float rt x"
| "py_repr rt (PStr s) = repr_str rt s"
| "py_repr rt (PList xs) = ''['' @ join_str '', '' (map (py_repr rt) xs) @ '']''"
| "py_repr rt (PDict kvs) =
     ''{'' @ join_str '', '' (map (\<lambda>kv. repr_str rt (fst kv) @ '': '' @ py_repr rt (snd kv)) kvs)
     @ ''}''"

text \<open>\<open>str(v)\<close>, which is also what an f-string field \<open>{v}\<close> inserts.\<close>

definition py_str :: "builtins \<Rightarrow> pyval \<Rightarrow> string" where
  "py_str rt v = (case v of PStr s \<Rightarrow> s | _ \<Rightarrow> py_repr rt v)"

text \<open>\<open>v.get(k, d)\<close>: only a dict has the method.\<close>

definition dict_get :: "(string \<times> pyval) list \<Rightarrow> string \<Rightarrow> pyval \<Rightarrow> pyval" where
  "dict_get kvs k d = (case map_of kvs k of None \<Rightarrow> d | Some v \<Rightarrow> v)"

fun py_get :: "pyval \<Rightarrow> string \<Rightarrow> pyval \<Rightarrow> pyval result" where
  "py_get (PDict kvs) k d = Inr (dict_get kvs k d)"
| "py_get v k d = Inl AttributeError"

text \<open>\<open>k in v\<close> for a string \<open>k\<close>: a key of a dict, an element of a list, a substring.\<close>

fun py_contains :: "string \<Rightarrow> pyval \<Rightarrow> bool result" where
  "py_contains k (PDict kvs) = Inr (k \<in> set (map fst kvs))"
| "py_contains k (PList xs) = Inr (PStr k \<in> set xs)"
| "py_contains k (PStr s) = Inr (sublist k s)"
| "py_contains k v = Inl TypeError"

text \<open>\<open>v[k]\<close> for a string \<open>k\<close>.\<close>

fun py_getitem :: "pyval \<Rightarrow> string \<Rightarrow> pyval result" where
  "py_getitem (PDict kvs) k = (case map_of kvs k of None \<Rightarrow> Inl KeyError | Some v \<Rightarrow> Inr v)"
| "py_getitem v k = Inl TypeError"

text \<open>
  The characters of a string: a byte that is no UTF-8 continuation byte starts one.
\<close>

definition is_continuation :: "char \<Rightarrow> bool" where
  "is_continuation c = (128 \<le> (of_char c :: int) \<and> (of_char c :: int) < 192)"

function codepoints :: "string \<Rightarrow> string list" where
  "codepoints [] = []"
| "codepoints (c # cs) =
     (c # takeWhile is_continuation cs) # codepoints (dropWhile is_continuation cs)"
  by pat_completeness auto
termination
  by (relation "measure length") (auto simp: length_dropWhile_le less_Suc_eq_le)

text \<open>\<open>v[0]\<close>. The keys of a decoded JSON object are strings, so \<open>0\<close> is no key.\<close>

fun py_first :: "pyval \<Rightarrow> pyval result" where
  "py_first (PList xs) = (case xs of [] \<Rightarrow> Inl IndexError | x # _ \<Rightarrow> Inr x)"
| "py_first (PStr s) = (case codepoints s of [] \<Rightarrow> Inl IndexError | c # _ \<Rightarrow> Inr (PStr c))"
| "py_first (PDict kvs) = Inl KeyError"
| "py_first v = Inl TypeError"

fun py_len :: "pyval \<Rightarrow> nat result" where
  "py_len (PList xs) = Inr (length xs)"
| "py_len (PStr s) = Inr (length (codepoints s))"
| "py_len (PDict kvs) = Inr (length kvs)"
| "py_len v = Inl TypeError"

text \<open>\<open>v > 0\<close>.\<close>

fun py_gt0 :: "pyval \<Rightarrow> bool result" where
  "py_gt0 (PInt i) = Inr (0 < i)"
| "py_gt0 (PBool b) = Inr b"
| "py_gt0 (PFloat x) = Inr (float_positive x)"
| "py_gt0 v = Inl TypeError"

text \<open>The items a \<open>for\<close> loop over \<open>v\<close> visits.\<close>

fun py_iter :: "pyval \<Rightarrow> pyval list result" where
  "py_iter (PList xs) = Inr xs"
| "py_iter (PStr s) = Inr (map PStr (codepoints s))"
| "py_iter (PDict kvs) = Inr (map (\<lambda>kv. PStr (fst kv)) kvs)"
| "py_iter v = Inl TypeError"

section \<open>The normalizer: \<open>metar_service.py\<close>, lines 73 to 225\<close>

subsection \<open>The fixed texts of the report\<close>

definition degree_sign :: string where
  "degree_sign = [CHR 0xC2, CHR 0xB0]"

definition newline2 :: string where
  "newline2 = [CHR 0x0A, CHR 0x0A]"

definition takeoff_sign :: string where
  "takeoff_sign = [CHR 0xF0, CHR 0x9F, CHR 0x9B, CHR 0xAB]"

definition header_line :: string where
  "header_line =
     takeoff_sign @ '' *GATWICK AIRPORT (EGKK) METAR* '' @ [CHR 0xF0, CHR 0x9F, CHR 0x9B, CHR 0xAC]"

definition observed_label :: string where
  "observed_label = [CHR 0xE2, CHR 0x8F, CHR 0xB0] @ '' Observed: ''"

definition temperature_label :: string where
  "temperature_label =
     [CHR 0xF0, CHR 0x9F, CHR 0x8C, CHR 0xA1, CHR 0xEF, CHR 0xB8, CHR 0x8F] @ '' Temperature: ''"

definition wind_label :: string where
  "wind_label = [CHR 0xF0, CHR 0x9F, CHR 0x92, CHR 0xA8] @ '' Wind: ''"

definition visibility_label :: string where
  "visibility_label =
     [CHR 0xF0, CHR 0x9F, CHR 0x91, CHR 0x81, CHR 0xEF, CHR 0xB8, CHR 0x8F] @ '' Visibility: ''"

definition clouds_label :: string where
  "clouds_label = [CHR 0xE2, CHR 0x98, CHR 0x81, CHR 0xEF, CHR 0xB8, CHR 0x8F] @ '' Clouds: ''"

definition raw_label :: string where
  "raw_label = [CHR 0xF0, CHR 0x9F, CHR 0x93, CHR 0x8A] @ '' Raw METAR: ''"

definition no_cloud_data :: string where
  "no_cloud_data = ''No cloud data''"

subsection \<open>What the two parsers share\<close>

text \<open>
  Lines 134 to 136 and 205 to 207, the same text in both parsers:
  \<^verbatim>\<open>
  wind_info = f"{wind_direction}\<degree> at {wind_speed} knots"
  if wind_gust:
      wind_info += f", gusting to {wind_gust} knots"
  \<close>
\<close>

definition wind_info :: "builtins \<Rightarrow> pyval \<Rightarrow> pyval \<Rightarrow> pyval \<Rightarrow> string" where
  "wind_info rt wind_direction wind_speed wind_gust =
     py_str rt wind_direction @ degree_sign @ '' at '' @ py_str rt wind_speed @ '' knots''
     @ (if py_truthy wind_gust then '', gusting to '' @ py_str rt wind_gust @ '' knots'' else [])"

text \<open>
  The loop over the cloud layers, lines 124 to 128 and 192 to 196; the two parsers
  differ in the names of the two keys only:
  \<^verbatim>\<open>
  for cloud in ...:
      code = cloud.get(code_key, "")
      altitude = cloud.get(altitude_key, "")
      if code and altitude:
          cloud_layers.append(f"{code} at {altitude} ft")
  \<close>
\<close>

definition layer_entry :: "builtins \<Rightarrow> pyval \<Rightarrow> pyval \<Rightarrow> string" where
  "layer_entry rt code altitude = py_str rt code @ '' at '' @ py_str rt altitude @ '' ft''"

fun cloud_layers :: "builtins \<Rightarrow> string \<Rightarrow> string \<Rightarrow> pyval list \<Rightarrow> string list result" where
  "cloud_layers rt code_key altitude_key [] = Inr []"
| "cloud_layers rt code_key altitude_key (cloud # rest) =
     ebind (py_get cloud code_key (PStr [])) (\<lambda>code.
     ebind (py_get cloud altitude_key (PStr [])) (\<lambda>altitude.
     ebind (cloud_layers rt code_key altitude_key rest) (\<lambda>layers.
       Inr ((if py_truthy code \<and> py_truthy altitude then [layer_entry rt code altitude] else [])
            @ layers))))"

text \<open>\<open>", ".join(cloud_layers) if cloud_layers else "No cloud data"\<close>\<close>

definition join_layers :: "string list \<Rightarrow> string" where
  "join_layers layers = (if layers \<noteq> [] then join_str '', '' layers else no_cloud_data)"

text \<open>The seven lines of the response list, lines 139 to 147 and 210 to 218.\<close>

definition response_lines ::
  "string \<Rightarrow> string \<Rightarrow> string \<Rightarrow> string \<Rightarrow> string \<Rightarrow> string \<Rightarrow> string list" where
  "response_lines obs temp_c wind visibility clouds raw_metar =
     [header_line,
      observed_label @ obs,
      temperature_label @ temp_c @ degree_sign @ ''C'',
      wind_label @ wind,
      visibility_label @ visibility,
      clouds_label @ clouds,
      raw_label @ raw_metar]"

subsection \<open>\<open>parse_checkwx_metar\<close>\<close>

text \<open>
  Line 118:
  \<^verbatim>\<open>f"{float(visibility)/1000:.1f} km" if visibility != "N/A" else "N/A"\<close>
\<close>

definition checkwx_visibility_km :: "builtins \<Rightarrow> pyval \<Rightarrow> string result" where
  "checkwx_visibility_km rt visibility =
     (if visibility \<noteq> PStr ''N/A''
      then ebind (py_float rt visibility) (\<lambda>x. Inr (format_1f (float_scale x (1 / 1000)) @ '' km''))
      else Inr ''N/A'')"

text \<open>Lines 121 to 131.\<close>

definition checkwx_clouds :: "builtins \<Rightarrow> pyval \<Rightarrow> string result" where
  "checkwx_clouds rt metar_data =
     ebind (py_contains ''clouds'' metar_data) (\<lambda>present.
       if \<not> present then Inr no_cloud_data
       else ebind (py_getitem metar_data ''clouds'') (\<lambda>cl.
         if \<not> py_truthy cl then Inr no_cloud_data
         else ebind (py_iter cl) (\<lambda>cls.
              ebind (cloud_layers rt ''code'' ''base_feet_agl'' cls) (\<lambda>layers.
                Inr (join_layers layers)))))"

text \<open>\<open>metar_data.get(outer, {}).get(inner, d)\<close>, lines 111 to 115.\<close>

definition nested_get :: "pyval \<Rightarrow> string \<Rightarrow> string \<Rightarrow> pyval \<Rightarrow> pyval result" where
  "nested_get metar_data outer inner d =
     ebind (py_get metar_data outer (PDict [])) (\<lambda>g. py_get g inner d)"

text \<open>The body of the \<open>try\<close>, lines 106 to 149.\<close>

definition checkwx_report :: "builtins \<Rightarrow> pyval \<Rightarrow> string result" where
  "checkwx_report rt metar_data =
     ebind (py_get metar_data ''raw'' (PStr ''N/A'')) (\<lambda>raw_metar.
     ebind (py_get metar_data ''observed'' (PStr ''N/A'')) (\<lambda>observed.
     ebind (nested_get metar_data ''temperature'' ''celsius'' (PStr ''N/A'')) (\<lambda>temp_c.
     ebind (nested_get metar_data ''wind'' ''speed_kts'' (PStr ''N/A'')) (\<lambda>wind_speed.
     ebind (nested_get metar_data ''wind'' ''degrees'' (PStr ''N/A'')) (\<lambda>wind_direction.
     ebind (nested_get metar_data ''wind'' ''gust_kts'' (PStr [])) (\<lambda>wind_gust.
     ebind (nested_get metar_data ''visibility'' ''meters'' (PStr ''N/A'')) (\<lambda>visibility.
     ebind (checkwx_visibility_km rt visibility) (\<lambda>visibility_km.
     ebind (checkwx_clouds rt metar_data) (\<lambda>clouds.
       Inr (join_str newline2
              (response_lines (py_str rt observed) (py_str rt temp_c)
                 (wind_info rt wind_direction wind_speed wind_gust)
                 visibility_km clouds (py_str rt raw_metar))))))))))))"

text \<open>
  The handler of line 151 returns the raw text; its own \<open>.get\<close> raises again when
  \<open>metar_data\<close> is no dict, and that exception leaves the function.
\<close>

definition parse_checkwx_metar :: "builtins \<Rightarrow> pyval \<Rightarrow> string result" where
  "parse_checkwx_metar rt metar_data =
     (case checkwx_report rt metar_data of
        Inr text \<Rightarrow> Inr text
      | Inl e \<Rightarrow>
          ebind (py_get metar_data ''raw'' (PStr ''Data unavailable'')) (\<lambda>raw.
            Inr (''Gatwick METAR: '' @ py_str rt raw)))"

subsection \<open>\<open>parse_aviationweather_metar\<close>\<close>

text \<open>
  Lines 163 to 169. The inner bare \<open>except\<close> catches the \<open>ValueError\<close> of a text
  that does not match the format and the \<open>TypeError\<close> of a value that is no string.
\<close>

definition shown_time :: "builtins \<Rightarrow> pyval \<Rightarrow> string" where
  "shown_time rt t =
     (case t of
        PStr s \<Rightarrow> (case strptime_strftime rt s of Some shown \<Rightarrow> shown | None \<Rightarrow> s)
      | _ \<Rightarrow> py_str rt t)"

definition aviationweather_obs_time :: "builtins \<Rightarrow> pyval \<Rightarrow> string result" where
  "aviationweather_obs_time rt metar_data =
     ebind (py_contains ''observation_time'' metar_data) (\<lambda>present.
       if \<not> present then Inr ''N/A''
       else ebind (py_getitem metar_data ''observation_time'') (\<lambda>t. Inr (shown_time rt t)))"

text \<open>Lines 178 to 185; the inner bare \<open>except\<close> catches whatever \<open>float\<close> raises.\<close>

definition aviationweather_visibility :: "builtins \<Rightarrow> pyval \<Rightarrow> string" where
  "aviationweather_visibility rt visibility_statute_mi =
     (if visibility_statute_mi \<noteq> PStr ''N/A''
      then (case py_float rt visibility_statute_mi of
              Inr x \<Rightarrow> format_1f (float_scale x mi_to_km) @ '' km''
            | Inl e \<Rightarrow> py_str rt visibility_statute_mi @ '' miles'')
      else ''N/A'')"

text \<open>Lines 188 to 202.\<close>

definition aviationweather_clouds :: "builtins \<Rightarrow> pyval \<Rightarrow> string result" where
  "aviationweather_clouds rt metar_data =
     ebind (py_contains ''sky_condition'' metar_data) (\<lambda>present.
       if \<not> present then Inr no_cloud_data
       else ebind (py_getitem metar_data ''sky_condition'') (\<lambda>sky.
         case sky of
           PList cls \<Rightarrow>
             ebind (cloud_layers rt ''sky_cover'' ''cloud_base_ft_agl'' cls) (\<lambda>layers.
               Inr (join_layers layers))
         | PDict kvs \<Rightarrow>
             ebind (py_get sky ''sky_cover'' (PStr [])) (\<lambda>code.
             ebind (py_get sky ''cloud_base_ft_agl'' (PStr [])) (\<lambda>altitude.
               Inr (if py_truthy code \<and> py_truthy altitude then layer_entry rt code altitude
                    else no_cloud_data)))
         | _ \<Rightarrow> Inr no_cloud_data))"

text \<open>The body of the \<open>try\<close>, lines 159 to 220.\<close>

definition aviationweather_report :: "builtins \<Rightarrow> pyval \<Rightarrow> string result" where
  "aviationweather_report rt metar_data =
     ebind (py_get metar_data ''raw_text'' (PStr ''N/A'')) (\<lambda>raw_metar.
     ebind (aviationweather_obs_time rt metar_data) (\<lambda>obs_time.
     ebind (py_get metar_data ''temp_c'' (PStr ''N/A'')) (\<lambda>temp_c.
     ebind (py_get metar_data ''wind_speed_kt'' (PStr ''N/A'')) (\<lambda>wind_speed.
     ebind (py_get metar_data ''wind_dir_degrees'' (PStr ''N/A'')) (\<lambda>wind_direction.
     ebind (py_get metar_data ''wind_gust_kt'' (PStr [])) (\<lambda>wind_gust.
     ebind (py_get metar_data ''visibility_statute_mi'' (PStr ''N/A'')) (\<lambda>visibility_statute_mi.
     ebind (aviationweather_clouds rt metar_data) (\<lambda>clouds.
       Inr (join_str newline2
              (response_lines obs_time (py_str rt temp_c)
                 (wind_info rt wind_direction wind_speed wind_gust)
                 (aviationweather_visibility rt visibility_statute_mi)
                 clouds (py_str rt raw_metar)))))))))))"

definition parse_aviationweather_metar :: "builtins \<Rightarrow> pyval \<Rightarrow> string result" where
  "parse_aviationweather_metar rt metar_data =
     (case aviationweather_report rt metar_data of
        Inr text \<Rightarrow> Inr text
      | Inl e \<Rightarrow>
          ebind (py_get metar_data ''raw_text'' (PStr ''Data unavailable'')) (\<lambda>raw.
            Inr (''Gatwick METAR: '' @ py_str rt raw)))"

subsection \<open>\<open>parse_metar_for_human\<close>\<close>

definition apology :: string where
  "apology = ''Sorry, I couldn't parse the METAR data properly.''"

text \<open>The body of the \<open>try\<close>, lines 86 to 91.\<close>

definition dispatch :: "builtins \<Rightarrow> pyval \<Rightarrow> string result" where
  "dispatch rt metar_data =
     ebind (py_contains ''raw_text'' metar_data) (\<lambda>fallback_format.
       if fallback_format then parse_aviationweather_metar rt metar_data
       else parse_checkwx_metar rt metar_data)"

text \<open>The handler, lines 96 to 101; an exception it raises itself leaves the function.\<close>

definition raw_only :: "builtins \<Rightarrow> pyval \<Rightarrow> string result" where
  "raw_only rt metar_data =
     ebind (py_contains ''raw_text'' metar_data) (\<lambda>has_raw_text.
       if has_raw_text
       then ebind (py_getitem metar_data ''raw_text'') (\<lambda>raw.
              Inr (''Gatwick METAR: '' @ py_str rt raw))
       else ebind (py_contains ''raw'' metar_data) (\<lambda>has_raw.
              if has_raw
              then ebind (py_getitem metar_data ''raw'') (\<lambda>raw.
                     Inr (''Gatwick METAR: '' @ py_str rt raw))
              else Inr apology))"

definition parse_metar_for_human :: "builtins \<Rightarrow> pyval \<Rightarrow> string result" where
  "parse_metar_for_human rt metar_data =
     (case dispatch rt metar_data of
        Inr text \<Rightarrow> Inr text
      | Inl e \<Rightarrow> raw_only rt metar_data)"

section \<open>The source clients and the orchestrator: \<open>metar_service.py\<close>, lines 14 to 71\<close>

text \<open>
  What \<open>requests.get\<close> does is given by the environment: it raises, or it returns a
  response with a status code and a body that \<open>response.json()\<close> decodes (\<open>None\<close>
  when decoding raises). The environment also holds the value of
  \<open>os.environ.get("CHECKWX_API_KEY")\<close>. Every call of \<open>requests.get\<close> is appended to
  a log, which the functions pass on.
\<close>

datatype http_outcome = RequestFailed | Response int "pyval option"

datatype request = GetCheckWX | GetAviationWeather

record env =
  checkwx_api_key :: "string option"
  checkwx_response :: http_outcome
  aviationweather_response :: http_outcome

definition requests_get :: "env \<Rightarrow> request \<Rightarrow> request list \<Rightarrow> http_outcome \<times> request list" where
  "requests_get ev r calls =
     ((case r of GetCheckWX \<Rightarrow> checkwx_response ev
               | GetAviationWeather \<Rightarrow> aviationweather_response ev),
      calls @ [r])"

text \<open>\<open>response.json()\<close>\<close>

definition json_body :: "pyval option \<Rightarrow> pyval result" where
  "json_body body = (case body of None \<Rightarrow> Inl JSONDecodeError | Some data \<Rightarrow> Inr data)"

text \<open>
  Lines 56 to 67, after the request: the value returned, or the exception raised
  inside the \<open>try\<close>.
\<close>

definition fallback_body :: "http_outcome \<Rightarrow> pyval result" where
  "fallback_body outcome =
     (case outcome of
        RequestFailed \<Rightarrow> Inl RequestException
      | Response status_code body \<Rightarrow>
          if status_code = 200 then
            ebind (json_body body) (\<lambda>data.
              if \<not> py_truthy data then Inr PNone
              else ebind (py_len data) (\<lambda>n.
                     if 0 < n then py_first data else Inr PNone))
          else Inr PNone)"

definition get_gatwick_metar_fallback :: "env \<Rightarrow> request list \<Rightarrow> pyval \<times> request list" where
  "get_gatwick_metar_fallback ev calls =
     (let (outcome, calls') = requests_get ev GetAviationWeather calls
      in ((case fallback_body outcome of Inr v \<Rightarrow> v | Inl e \<Rightarrow> PNone), calls'))"

text \<open>
  Lines 28 to 40, after the request: the \<open>try\<close> returns a value (line 33 or 36),
  goes to the fallback (line 40), or raises.
\<close>

datatype primary_step = Return pyval | CallFallback

definition primary_body :: "http_outcome \<Rightarrow> primary_step result" where
  "primary_body outcome =
     (case outcome of
        RequestFailed \<Rightarrow> Inl RequestException
      | Response status_code body \<Rightarrow>
          if status_code = 200 then
            ebind (json_body body) (\<lambda>data.
            ebind (py_get data ''results'' (PInt 0)) (\<lambda>results.
            ebind (py_gt0 results) (\<lambda>positive.
              if positive
              then ebind (py_getitem data ''data'') (\<lambda>d.
                   ebind (py_first d) (\<lambda>latest. Inr (Return latest)))
              else Inr (Return PNone))))
          else Inr CallFallback)"

text \<open>\<open>not CHECKWX_API_KEY\<close>: the variable is unset or empty.\<close>

definition no_api_key :: "env \<Rightarrow> bool" where
  "no_api_key ev = (case checkwx_api_key ev of None \<Rightarrow> True | Some k \<Rightarrow> k = [])"

definition get_gatwick_metar :: "env \<Rightarrow> request list \<Rightarrow> pyval \<times> request list" where
  "get_gatwick_metar ev calls =
     (if no_api_key ev then get_gatwick_metar_fallback ev calls
      else let (outcome, calls') = requests_get ev GetCheckWX calls
           in (case primary_body outcome of
                 Inr (Return v) \<Rightarrow> (v, calls')
               | Inr CallFallback \<Rightarrow> get_gatwick_metar_fallback ev calls'
               | Inl e \<Rightarrow> get_gatwick_metar_fallback ev calls'))"

subsection \<open>The failure reasons of the specification\<close>

text \<open>
  The specification names the failures of a source client: \<open>Unconfigured\<close> (no key is
  configured; primary only), \<open>NoData\<close> (HTTP 200 with zero results) and
  \<open>SourceUnavailable\<close> (a non-200 response, a network error or a timeout). These two
  functions classify an environment by those words; \<open>None\<close> is an outcome the
  specification names no failure for.
\<close>

datatype failure = Unconfigured | NoData | SourceUnavailable

definition primary_failure :: "env \<Rightarrow> failure option" where
  "primary_failure ev =
     (if no_api_key ev then Some Unconfigured
      else (case checkwx_response ev of
              RequestFailed \<Rightarrow> Some SourceUnavailable
            | Response status_code body \<Rightarrow>
                if status_code \<noteq> 200 then Some SourceUnavailable
                else (case body of
                        Some (PDict kvs) \<Rightarrow>
                          if map_of kvs ''results'' = Some (PInt 0) then Some NoData else None
                      | _ \<Rightarrow> None)))"

definition fallback_failure :: "env \<Rightarrow> failure option" where
  "fallback_failure ev =
     (case aviationweather_response ev of
        RequestFailed \<Rightarrow> Some SourceUnavailable
      | Response status_code body \<Rightarrow>
          if status_code \<noteq> 200 then Some SourceUnavailable
          else if body = Some (PList []) then Some NoData else None)"

section \<open>The caller: \<open>app.py\<close>, lines 36 to 52\<close>

text \<open>
  The text handed to \<open>send_whatsapp_message\<close> once a message has triggered the
  service. When \<open>parse_metar_for_human\<close> raises, the text is built from the
  exception's own message, which is not modelled: the reply is \<open>ErrorMessage e\<close>.
\<close>

datatype reply = Message string | ErrorMessage pyexn

definition no_data_message :: string where
  "no_data_message =
     ''Sorry, I couldn't retrieve the Gatwick METAR data at the moment. Please try again later.''"

definition webhook_reply :: "builtins \<Rightarrow> env \<Rightarrow> reply" where
  "webhook_reply rt ev =
     (let (metar_data, calls) = get_gatwick_metar ev []
      in if py_truthy metar_data
         then (case parse_metar_for_human rt metar_data of
                 Inr text \<Rightarrow> Message text
               | Inl e \<Rightarrow> ErrorMessage e)
         else Message no_data_message)"

section \<open>A reference runtime\<close>

text \<open>
  An instance of the builtins, for evaluating the model on concrete observations: what
  CPython 3 does in the C locale on ASCII text. Text with non-ASCII characters is no
  number for it, and \<open>repr\<close> copies non-ASCII bytes unchanged.
\<close>

subsection \<open>\<open>repr\<close> of a string\<close>

definition hex_digit :: "int \<Rightarrow> char" where
  "hex_digit d = ''0123456789abcdef'' ! nat d"

definition escape_char :: "char \<Rightarrow> char \<Rightarrow> string" where
  "escape_char quote c =
     (if c = quote \<or> c = CHR 0x5C then [CHR 0x5C, c]
      else if c = CHR 0x0A then [CHR 0x5C, CHR ''n'']
      else if c = CHR 0x0D then [CHR 0x5C, CHR ''r'']
      else if c = CHR 0x09 then [CHR 0x5C, CHR ''t'']
      else if (of_char c :: int) < 32 \<or> (of_char c :: int) = 127
      then [CHR 0x5C, CHR ''x'', hex_digit (of_char c div 16), hex_digit (of_char c mod 16)]
      else [c])"

definition ascii_repr_str :: "string \<Rightarrow> string" where
  "ascii_repr_str s =
     (let quote = (if CHR 0x27 \<in> set s \<and> CHR 0x22 \<notin> set s then CHR 0x22 else CHR 0x27)
      in [quote] @ concat (map (escape_char quote) s) @ [quote])"

subsection \<open>\<open>repr\<close> of a float: the shortest decimal that reads back as the same double\<close>

text \<open>\<open>ilog10 q\<close> is \<open>\<lfloor>log\<^sub>1\<^sub>0 q\<rfloor>\<close> for a positive rational \<open>q\<close>.\<close>

definition ilog10 :: "rat \<Rightarrow> int" where
  "ilog10 q =
     (let (a, b) = quotient_of q;
          d = int (length (str_nat a)) - int (length (str_nat b))
      in if power_int 10 d \<le> q then d else d - 1)"

text \<open>
  \<open>shortest_decimal fuel p q\<close> tries \<open>p\<close>, \<open>p + 1\<close>, ... significant digits and returns
  the first \<open>(n, k)\<close> such that \<open>n / 10\<^sup>k\<close> rounds to the double \<open>q\<close>, the nearer one when both
  neighbours of \<open>q\<close> do; seventeen digits always suffice.
\<close>

fun shortest_decimal :: "nat \<Rightarrow> int \<Rightarrow> rat \<Rightarrow> int \<times> int" where
  "shortest_decimal 0 p q = (let k = p - 1 - ilog10 q in (round_half_even (q * power_int 10 k), k))"
| "shortest_decimal (Suc fuel) p q =
     (let k = p - 1 - ilog10 q;
          lo = \<lfloor>q * power_int 10 k\<rfloor>;
          reads_back = (\<lambda>n. double_of_rat False (of_int n / power_int 10 k) = Finite False q);
          lo_nearer = (q * power_int 10 k - of_int lo \<le> of_int (lo + 1) - q * power_int 10 k)
      in if reads_back lo \<and> (lo_nearer \<or> \<not> reads_back (lo + 1)) then (lo, k)
         else if reads_back (lo + 1) then (lo + 1, k)
         else shortest_decimal fuel (p + 1) q)"

definition strip_zeros :: "string \<Rightarrow> string" where
  "strip_zeros ds = (case rev (dropWhile (\<lambda>c. c = CHR ''0'') (rev ds)) of [] \<Rightarrow> ''0'' | r \<Rightarrow> r)"

definition two_digits :: "int \<Rightarrow> string" where
  "two_digits n = (if n < 10 then ''0'' else []) @ str_nat n"

text \<open>
  The digits \<open>ds\<close> with the decimal point after the first \<open>decpt\<close> of them: plain
  notation when \<open>-4 < decpt \<le> 16\<close>, with \<open>.0\<close> added to an integer, else an exponent.
\<close>

definition place_point :: "string \<Rightarrow> int \<Rightarrow> string" where
  "place_point ds decpt =
     (if - 4 < decpt \<and> decpt \<le> 16 then
        (if decpt \<le> 0 then ''0.'' @ replicate (nat (- decpt)) (CHR ''0'') @ ds
         else if int (length ds) \<le> decpt
         then ds @ replicate (nat (decpt - int (length ds))) (CHR ''0'') @ ''.0''
         else take (nat decpt) ds @ ''.'' @ drop (nat decpt) ds)
      else take 1 ds @ (if 1 < length ds then ''.'' @ drop 1 ds else [])
           @ ''e'' @ (if decpt - 1 < 0 then ''-'' else ''+'') @ two_digits \<bar>decpt - 1\<bar>)"

fun ascii_repr_float :: "pyfloat \<Rightarrow> string" where
  "ascii_repr_float (Finite s q) =
     (if s then ''-'' else [])
     @ (if q \<le> 0 then ''0.0''
        else let (n, k) = shortest_decimal 16 1 q
             in place_point (strip_zeros (str_nat n)) (int (length (str_nat n)) - k))"
| "ascii_repr_float (Infinity s) = (if s then ''-inf'' else ''inf'')"
| "ascii_repr_float NaN = ''nan''"

subsection \<open>\<open>strptime\<close> and \<open>strftime\<close>\<close>

text \<open>
  A field of one or two digits with a value from \<open>lo\<close> to \<open>hi\<close>, followed by the
  separator \<open>sep\<close> in either case; the value and the rest of the text.
\<close>

definition time_field :: "int \<Rightarrow> int \<Rightarrow> char \<Rightarrow> string \<Rightarrow> (int \<times> string) option" where
  "time_field lo hi sep s =
     (let ds = takeWhile is_digit s; r = dropWhile is_digit s; n = int_of_digits ds
      in if (length ds = 1 \<or> length ds = 2) \<and> lo \<le> n \<and> n \<le> hi
         then (case r of
                 [] \<Rightarrow> None
               | c # cs \<Rightarrow> if lower_ascii c = lower_ascii sep then Some (n, cs) else None)
         else None)"

definition leap_year :: "int \<Rightarrow> bool" where
  "leap_year y = (y mod 4 = 0 \<and> (y mod 100 \<noteq> 0 \<or> y mod 400 = 0))"

definition days_in_month :: "int \<Rightarrow> int \<Rightarrow> int" where
  "days_in_month y m =
     (if m = 2 then (if leap_year y then 29 else 28)
      else if m = 4 \<or> m = 6 \<or> m = 9 \<or> m = 11 then 30 else 31)"

definition month_abbr :: "int \<Rightarrow> string" where
  "month_abbr m =
     [''Jan'', ''Feb'', ''Mar'', ''Apr'', ''May'', ''Jun'',
      ''Jul'', ''Aug'', ''Sep'', ''Oct'', ''Nov'', ''Dec''] ! nat (m - 1)"

text \<open>
  The format \<open>%Y-%m-%dT%H:%M:%SZ\<close>: a year of four digits, not 0000; a day may be
  written as a space and one digit; the day must exist in the month and the second be
  below 60. Shown as \<open>%d-%b-%Y %H:%M UTC\<close>, the year without padding.
\<close>

definition ascii_strptime_strftime :: "string \<Rightarrow> string option" where
  "ascii_strptime_strftime s =
     (let ys = take 4 s; y = int_of_digits ys
      in if length ys = 4 \<and> list_all is_digit ys \<and> take 1 (drop 4 s) = ''-'' then
           (case time_field 1 12 (CHR ''-'') (drop 5 s) of
              None \<Rightarrow> None
            | Some (m, r1) \<Rightarrow>
                (case time_field 1 31 (CHR ''T'')
                        (case r1 of
                           c # d # cs \<Rightarrow> if c = CHR 0x20 \<and> is_digit d \<and> \<not> list_all is_digit (take 1 cs)
                                         then d # cs else r1
                         | _ \<Rightarrow> r1) of
                   None \<Rightarrow> None
                 | Some (d, r2) \<Rightarrow>
                     (case time_field 0 23 (CHR '':'') r2 of
                        None \<Rightarrow> None
                      | Some (hh, r3) \<Rightarrow>
                          (case time_field 0 59 (CHR '':'') r3 of
                             None \<Rightarrow> None
                           | Some (mm, r4) \<Rightarrow>
                               (case time_field 0 61 (CHR ''Z'') r4 of
                                  None \<Rightarrow> None
                                | Some (ss, r5) \<Rightarrow>
                                    if r5 = [] \<and> 1 \<le> y \<and> d \<le> days_in_month y m \<and> ss \<le> 59
                                    then Some (two_digits d @ ''-'' @ month_abbr m @ ''-''
                                               @ str_nat y @ '' '' @ two_digits hh @ '':''
                                               @ two_digits mm @ '' UTC'')
                                    else None)))))
         else None)"

definition cpython :: builtins where
  "cpython =
     \<lparr>float_of_nonascii = (\<lambda>s. None),
      repr_float = ascii_repr_float,
      repr_str = ascii_repr_str,
      strptime_strftime = ascii_strptime_strftime\<rparr>"

subsection \<open>Environments and observations used as examples\<close>

definition egkk_raw :: string where
  "egkk_raw = ''EGKK 010520Z 27015KT 9999 FEW025 12/08 Q1013''"

text \<open>
  A key is configured, the primary provider answers 200 with zero results, and the
  fallback provider has an observation.
\<close>

definition nodata_env :: env where
  "nodata_env =
     \<lparr>checkwx_api_key = Some ''key'',
      checkwx_response = Response 200 (Some (PDict [(''results'', PInt 0), (''data'', PList [])])),
      aviationweather_response = Response 200 (Some (PList [PDict [(''raw_text'', PStr egkk_raw)]]))\<rparr>"

text \<open>The primary provider answers 401, the fallback provider has an observation.\<close>

definition unauthorized_env :: env where
  "unauthorized_env =
     \<lparr>checkwx_api_key = Some ''key'',
      checkwx_response = Response 401 None,
      aviationweather_response = Response 200 (Some (PList [PDict [(''raw_text'', PStr egkk_raw)]]))\<rparr>"

text \<open>The primary provider has an observation.\<close>

definition primary_ok_env :: env where
  "primary_ok_env =
     \<lparr>checkwx_api_key = Some ''key'',
      checkwx_response =
        Response 200 (Some (PDict [(''results'', PInt 1), (''data'', PList [PDict [(''raw'', PStr egkk_raw)]])])),
      aviationweather_response = RequestFailed\<rparr>"

text \<open>No key is configured and the fallback provider answers 503.\<close>

definition all_down_env :: env where
  "all_down_env =
     \<lparr>checkwx_api_key = None,
      checkwx_response = RequestFailed,
      aviationweather_response = Response 503 None\<rparr>"

text \<open>
  The specification's words for the gust of the wind line and for the two fields of a
  cloud layer, "present and non-empty": the key is there and its value is not null and
  not an empty text, list or object. The argument is the result of the lookup.
\<close>

definition present_and_nonempty :: "pyval option \<Rightarrow> bool" where
  "present_and_nonempty found =
     (case found of
        None \<Rightarrow> False
      | Some v \<Rightarrow> v \<noteq> PNone \<and> v \<noteq> PStr [] \<and> v \<noteq> PList [] \<and> v \<noteq> PDict [])"

text \<open>Observations used as examples.\<close>

definition checkwx_example :: pyval where
  "checkwx_example =
     PDict [(''raw'', PStr egkk_raw),
            (''observed'', PStr ''2024-01-01T05:20:00Z''),
            (''temperature'', PDict [(''celsius'', PInt 12)]),
            (''wind'', PDict [(''degrees'', PInt 270), (''speed_kts'', PInt 15)]),
            (''visibility'', PDict [(''meters'', PStr ''9000'')]),
            (''clouds'', PList [PDict [(''code'', PStr ''FEW''), (''base_feet_agl'', PInt 2500)]])]"

definition null_temperature_example :: pyval where
  "null_temperature_example = PDict [(''raw'', PStr egkk_raw), (''temperature'', PNone)]"

definition text_temperature_example :: pyval where
  "text_temperature_example = PDict [(''temperature'', PStr ''12'')]"

definition unknown_meters_example :: pyval where
  "unknown_meters_example =
     PDict [(''raw'', PStr egkk_raw), (''visibility'', PDict [(''meters'', PStr ''unknown'')])]"

definition ten_plus_miles_example :: pyval where
  "ten_plus_miles_example =
     PDict [(''raw_text'', PStr egkk_raw), (''visibility_statute_mi'', PStr ''10+'')]"

text \<open>A fallback-schema observation whose cloud layer is a text, not an object.\<close>

definition text_layer_example :: pyval where
  "text_layer_example =
     PDict [(''raw_text'', PStr egkk_raw), (''sky_condition'', PList [PStr ''FEW025''])]"


definition gust_fields :: "pyval \<Rightarrow> (string \<times> pyval) list" where
  "gust_fields gust =
     [(''raw_text'', PStr egkk_raw), (''wind_dir_degrees'', PInt 270), (''wind_speed_kt'', PInt 15),
      (''wind_gust_kt'', gust)]"

text \<open>Fog with the cloud base on the ground, in the primary schema.\<close>

definition fog_raw :: string where
  "fog_raw = ''EGKK 010520Z 00000KT 0100 FG OVC000 08/08 Q1013''"

definition ground_layer :: "(string \<times> pyval) list" where
  "ground_layer = [(''code'', PStr ''OVC''), (''base_feet_agl'', PInt 0)]"

definition fog_example :: pyval where
  "fog_example = PDict [(''raw'', PStr fog_raw), (''clouds'', PList [PDict ground_layer])]"

definition na_meters_example :: pyval where
  "na_meters_example =
     PDict [(''raw'', PStr egkk_raw), (''visibility'', PDict [(''meters'', PStr ''N/A'')])]"

definition na_miles_example :: pyval where
  "na_miles_example =
     PDict [(''raw_text'', PStr egkk_raw), (''visibility_statute_mi'', PStr ''N/A'')]"

section \<open>The report, field by field\<close>

text \<open>
  What the normalizer is to return for a dict, written out from the fields of the
  observation: when its extraction raises, and the seven lines when it does not. The
  properties below show that the parsers compute exactly this.
\<close>

definition is_dict :: "pyval \<Rightarrow> bool" where
  "is_dict v = (case v of PDict kvs \<Rightarrow> True | _ \<Rightarrow> False)"

definition fields_of :: "pyval \<Rightarrow> (string \<times> pyval) list" where
  "fields_of v = (case v of PDict kvs \<Rightarrow> kvs | _ \<Rightarrow> [])"

definition raises :: "'a result \<Rightarrow> bool" where
  "raises r = (case r of Inl e \<Rightarrow> True | Inr x \<Rightarrow> False)"

text \<open>
  The entries of the layers that have a truthy cover code and a truthy altitude, in
  the order of the list.
\<close>

definition layer_texts :: "builtins \<Rightarrow> string \<Rightarrow> string \<Rightarrow> pyval list \<Rightarrow> string list" where
  "layer_texts rt code_key altitude_key cls =
     map (\<lambda>l. layer_entry rt (dict_get (fields_of l) code_key (PStr []))
                (dict_get (fields_of l) altitude_key (PStr [])))
       (filter (\<lambda>l. py_truthy (dict_get (fields_of l) code_key (PStr []))
                    \<and> py_truthy (dict_get (fields_of l) altitude_key (PStr []))) cls)"

text \<open>
  Primary schema. The extraction raises when \<open>temperature\<close>, \<open>wind\<close> or \<open>visibility\<close>
  is present and no object, when the meters are not the text \<open>N/A\<close> and \<open>float\<close> rejects
  them, or when \<open>clouds\<close> is truthy and not a list of objects.
\<close>

definition primary_clouds_raise :: "(string \<times> pyval) list \<Rightarrow> bool" where
  "primary_clouds_raise kvs =
     (case map_of kvs ''clouds'' of
        None \<Rightarrow> False
      | Some cl \<Rightarrow> py_truthy cl \<and> (case cl of PList cls \<Rightarrow> \<not> list_all is_dict cls | _ \<Rightarrow> True))"

definition primary_meters :: "(string \<times> pyval) list \<Rightarrow> pyval" where
  "primary_meters kvs =
     dict_get (fields_of (dict_get kvs ''visibility'' (PDict []))) ''meters'' (PStr ''N/A'')"

definition primary_raises :: "builtins \<Rightarrow> (string \<times> pyval) list \<Rightarrow> bool" where
  "primary_raises rt kvs =
     (\<not> is_dict (dict_get kvs ''temperature'' (PDict []))
      \<or> \<not> is_dict (dict_get kvs ''wind'' (PDict []))
      \<or> \<not> is_dict (dict_get kvs ''visibility'' (PDict []))
      \<or> (primary_meters kvs \<noteq> PStr ''N/A'' \<and> raises (py_float rt (primary_meters kvs)))
      \<or> primary_clouds_raise kvs)"

definition primary_visibility_text :: "builtins \<Rightarrow> (string \<times> pyval) list \<Rightarrow> string" where
  "primary_visibility_text rt kvs =
     (if primary_meters kvs = PStr ''N/A'' then ''N/A''
      else (case py_float rt (primary_meters kvs) of
              Inr x \<Rightarrow> format_1f (float_scale x (1 / 1000)) @ '' km''
            | Inl e \<Rightarrow> []))"

definition primary_clouds_text :: "builtins \<Rightarrow> (string \<times> pyval) list \<Rightarrow> string" where
  "primary_clouds_text rt kvs =
     (case map_of kvs ''clouds'' of
        Some (PList cls) \<Rightarrow> join_layers (layer_texts rt ''code'' ''base_feet_agl'' cls)
      | _ \<Rightarrow> no_cloud_data)"

definition primary_lines :: "builtins \<Rightarrow> (string \<times> pyval) list \<Rightarrow> string list" where
  "primary_lines rt kvs =
     response_lines
       (py_str rt (dict_get kvs ''observed'' (PStr ''N/A'')))
       (py_str rt (dict_get (fields_of (dict_get kvs ''temperature'' (PDict []))) ''celsius''
                    (PStr ''N/A'')))
       (wind_info rt
          (dict_get (fields_of (dict_get kvs ''wind'' (PDict []))) ''degrees'' (PStr ''N/A''))
          (dict_get (fields_of (dict_get kvs ''wind'' (PDict []))) ''speed_kts'' (PStr ''N/A''))
          (dict_get (fields_of (dict_get kvs ''wind'' (PDict []))) ''gust_kts'' (PStr [])))
       (primary_visibility_text rt kvs)
       (primary_clouds_text rt kvs)
       (py_str rt (dict_get kvs ''raw'' (PStr ''N/A'')))"

text \<open>
  Fallback schema. The extraction raises only when \<open>sky_condition\<close> is a list with an
  element that is no object.
\<close>

definition fallback_raises :: "(string \<times> pyval) list \<Rightarrow> bool" where
  "fallback_raises kvs =
     (case map_of kvs ''sky_condition'' of
        Some (PList cls) \<Rightarrow> \<not> list_all is_dict cls
      | _ \<Rightarrow> False)"

definition fallback_clouds_text :: "builtins \<Rightarrow> (string \<times> pyval) list \<Rightarrow> string" where
  "fallback_clouds_text rt kvs =
     (case map_of kvs ''sky_condition'' of
        Some (PList cls) \<Rightarrow> join_layers (layer_texts rt ''sky_cover'' ''cloud_base_ft_agl'' cls)
      | Some (PDict l) \<Rightarrow>
          if py_truthy (dict_get l ''sky_cover'' (PStr []))
             \<and> py_truthy (dict_get l ''cloud_base_ft_agl'' (PStr []))
          then layer_entry rt (dict_get l ''sky_cover'' (PStr []))
                 (dict_get l ''cloud_base_ft_agl'' (PStr []))
          else no_cloud_data
      | _ \<Rightarrow> no_cloud_data)"

definition fallback_lines :: "builtins \<Rightarrow> (string \<times> pyval) list \<Rightarrow> string list" where
  "fallback_lines rt kvs =
     response_lines
       (case map_of kvs ''observation_time'' of None \<Rightarrow> ''N/A'' | Some t \<Rightarrow> shown_time rt t)
       (py_str rt (dict_get kvs ''temp_c'' (PStr ''N/A'')))
       (wind_info rt (dict_get kvs ''wind_dir_degrees'' (PStr ''N/A''))
          (dict_get kvs ''wind_speed_kt'' (PStr ''N/A''))
          (dict_get kvs ''wind_gust_kt'' (PStr [])))
       (aviationweather_visibility rt (dict_get kvs ''visibility_statute_mi'' (PStr ''N/A'')))
       (fallback_clouds_text rt kvs)
       (py_str rt (dict_get kvs ''raw_text'' (PStr ''N/A'')))"

text \<open>
  "Rounded to one decimal", in the specification's words: the number of tenths nearest
  to a rational, a half going up.
\<close>

definition rounded_tenths :: "rat \<Rightarrow> int" where
  "rounded_tenths q = \<lfloor>q * 10 + 1 / 2\<rfloor>"

section \<open>Properties\<close>

subsection \<open>Exceptions and the handlers\<close>

lemma ebind_Inr_iff: "ebind m f = Inr y \<longleftrightarrow> (\<exists>x. m = Inr x \<and> f x = Inr y)"
  by (cases m) (simp_all add: ebind_def)

lemma ebind_Inr [simp]: "ebind (Inr x) f = f x"
  by (simp add: ebind_def)

lemma ebind_Inl [simp]: "ebind (Inl e) f = Inl e"
  by (simp add: ebind_def)

lemma py_contains_dict: "py_contains k (PDict kvs) = Inr (k \<in> fst ` set kvs)"
  by simp

lemma parse_checkwx_metar_dict:
  "parse_checkwx_metar rt (PDict kvs) =
     Inr (case checkwx_report rt (PDict kvs) of
            Inr t \<Rightarrow> t
          | Inl e \<Rightarrow> ''Gatwick METAR: '' @ py_str rt (dict_get kvs ''raw'' (PStr ''Data unavailable'')))"
  by (simp add: parse_checkwx_metar_def split: sum.splits)

lemma parse_aviationweather_metar_dict:
  "parse_aviationweather_metar rt (PDict kvs) =
     Inr (case aviationweather_report rt (PDict kvs) of
            Inr t \<Rightarrow> t
          | Inl e \<Rightarrow> ''Gatwick METAR: '' @ py_str rt (dict_get kvs ''raw_text'' (PStr ''Data unavailable'')))"
  by (simp add: parse_aviationweather_metar_def split: sum.splits)

lemma dispatch_dict:
  "dispatch rt (PDict kvs) =
     (if ''raw_text'' \<in> fst ` set kvs then parse_aviationweather_metar rt (PDict kvs)
      else parse_checkwx_metar rt (PDict kvs))"
  by (simp add: dispatch_def)

lemma parse_metar_for_human_dict:
  "parse_metar_for_human rt (PDict kvs) = dispatch rt (PDict kvs)"
  by (simp add: parse_metar_for_human_def dispatch_dict parse_checkwx_metar_dict
      parse_aviationweather_metar_dict)

subsection \<open>Schema detection\<close>

text \<open>
  C4. Schema detection is decided by the presence of the key \<open>raw_text\<close> alone. For
  every observation that is a dict, the membership test of line 86 does not raise and
  answers whether \<open>raw_text\<close> is a key; the \<open>try\<close> body, and with it
  \<open>parse_metar_for_human\<close>, returns what \<open>parse_aviationweather_metar\<close> returns when the
  key is present and what \<open>parse_checkwx_metar\<close> returns when it is absent.
\<close>

theorem schema_detection:
  "py_contains ''raw_text'' (PDict kvs) = Inr (''raw_text'' \<in> fst ` set kvs)
   \<and> dispatch rt (PDict kvs) =
       (if ''raw_text'' \<in> fst ` set kvs then parse_aviationweather_metar rt (PDict kvs)
        else parse_checkwx_metar rt (PDict kvs))
   \<and> parse_metar_for_human rt (PDict kvs) =
       (if ''raw_text'' \<in> fst ` set kvs then parse_aviationweather_metar rt (PDict kvs)
        else parse_checkwx_metar rt (PDict kvs))"
  by (simp add: parse_metar_for_human_dict dispatch_dict)

theorem schema_detection_witness:
  "parse_metar_for_human cpython (PDict [(''raw_text'', PStr egkk_raw)]) =
     parse_aviationweather_metar cpython (PDict [(''raw_text'', PStr egkk_raw)])
   \<and> parse_metar_for_human cpython (PDict [(''raw'', PStr egkk_raw)]) =
     parse_checkwx_metar cpython (PDict [(''raw'', PStr egkk_raw)])"
  using schema_detection [of "[(''raw_text'', PStr egkk_raw)]" cpython]
    schema_detection [of "[(''raw'', PStr egkk_raw)]" cpython]
  by simp

subsection \<open>The orchestrator\<close>

lemma fallback_calls:
  "snd (get_gatwick_metar_fallback ev calls) = calls @ [GetAviationWeather]"
  by (simp add: get_gatwick_metar_fallback_def requests_get_def)

lemma fallback_result_independent:
  "fst (get_gatwick_metar_fallback ev calls) = fst (get_gatwick_metar_fallback ev calls')"
  by (simp add: get_gatwick_metar_fallback_def requests_get_def)

lemma primary_calls:
  "snd (get_gatwick_metar ev calls) = calls @ [GetAviationWeather]
   \<or> snd (get_gatwick_metar ev calls) = calls @ [GetCheckWX]
   \<or> snd (get_gatwick_metar ev calls) = calls @ [GetCheckWX, GetAviationWeather]"
  by (simp add: get_gatwick_metar_def requests_get_def fallback_calls
      split: sum.splits primary_step.splits)

lemma primary_body_with_data:
  assumes "map_of kvs ''results'' = Some (PInt n)" and "0 < n"
    and "map_of kvs ''data'' = Some (PList (latest # older))"
  shows "primary_body (Response 200 (Some (PDict kvs))) = Inr (Return latest)"
  using assms by (simp add: primary_body_def json_body_def dict_get_def)

text \<open>
  C6. One invocation of \<open>get_gatwick_metar\<close> sends one request to the primary
  provider at most and one to the fallback provider at most, two requests at most in
  all, and never the fallback before the primary. When the primary answers 200 with
  a positive result count and a first observation, that observation is returned and the
  fallback is not requested. When no API key is configured, the only request is the one
  to the fallback provider.
\<close>

theorem one_attempt_per_source:
  "count_list (snd (get_gatwick_metar ev [])) GetCheckWX \<le> 1
   \<and> count_list (snd (get_gatwick_metar ev [])) GetAviationWeather \<le> 1
   \<and> snd (get_gatwick_metar ev []) \<in>
       {[GetAviationWeather], [GetCheckWX], [GetCheckWX, GetAviationWeather]}
   \<and> (\<not> no_api_key ev \<and> checkwx_response ev = Response 200 (Some (PDict kvs))
        \<and> map_of kvs ''results'' = Some (PInt n) \<and> 0 < n
        \<and> map_of kvs ''data'' = Some (PList (latest # older))
       \<longrightarrow> get_gatwick_metar ev [] = (latest, [GetCheckWX]))
   \<and> (no_api_key ev \<longrightarrow> snd (get_gatwick_metar ev []) = [GetAviationWeather])"
proof -
  have shape: "snd (get_gatwick_metar ev []) \<in>
      {[GetAviationWeather], [GetCheckWX], [GetCheckWX, GetAviationWeather]}"
    using primary_calls [of ev "[]"] by auto
  have data: "get_gatwick_metar ev [] = (latest, [GetCheckWX])"
    if "\<not> no_api_key ev" "checkwx_response ev = Response 200 (Some (PDict kvs))"
      "map_of kvs ''results'' = Some (PInt n)" "0 < n"
      "map_of kvs ''data'' = Some (PList (latest # older))"
    using that primary_body_with_data [of kvs n latest older]
    by (simp add: get_gatwick_metar_def requests_get_def)
  have unconfigured: "snd (get_gatwick_metar ev []) = [GetAviationWeather]" if "no_api_key ev"
    using that by (simp add: get_gatwick_metar_def fallback_calls)
  from shape have "count_list (snd (get_gatwick_metar ev [])) GetCheckWX \<le> 1"
    and "count_list (snd (get_gatwick_metar ev [])) GetAviationWeather \<le> 1"
    by auto
  with shape data unconfigured show ?thesis by blast
qed

theorem one_attempt_per_source_witness:
  "get_gatwick_metar primary_ok_env [] = (PDict [(''raw'', PStr egkk_raw)], [GetCheckWX])
   \<and> no_api_key all_down_env
   \<and> snd (get_gatwick_metar all_down_env []) = [GetAviationWeather]
   \<and> snd (get_gatwick_metar unauthorized_env []) = [GetCheckWX, GetAviationWeather]"
proof -
  have key: "\<not> no_api_key primary_ok_env"
    by (simp add: no_api_key_def primary_ok_env_def)
  have resp: "checkwx_response primary_ok_env =
      Response 200 (Some (PDict [(''results'', PInt 1), (''data'', PList [PDict [(''raw'', PStr egkk_raw)]])]))"
    by (simp add: primary_ok_env_def)
  have down: "no_api_key all_down_env"
    by (simp add: no_api_key_def all_down_env_def)
  have both: "snd (get_gatwick_metar unauthorized_env []) = [GetCheckWX, GetAviationWeather]"
    by (simp add: get_gatwick_metar_def no_api_key_def unauthorized_env_def requests_get_def
        primary_body_def fallback_calls)
  from key resp down both
    one_attempt_per_source [of primary_ok_env
      "[(''results'', PInt 1), (''data'', PList [PDict [(''raw'', PStr egkk_raw)]])]" 1
      "PDict [(''raw'', PStr egkk_raw)]" "[]"]
    one_attempt_per_source [of all_down_env]
  show ?thesis by simp
qed

lemma get_gatwick_metar_unconfigured:
  "no_api_key ev \<Longrightarrow> get_gatwick_metar ev calls = get_gatwick_metar_fallback ev calls"
  by (simp add: get_gatwick_metar_def)

lemma get_gatwick_metar_unavailable:
  assumes "\<not> no_api_key ev"
    and "checkwx_response ev = RequestFailed
         \<or> (\<exists>status_code body. checkwx_response ev = Response status_code body \<and> status_code \<noteq> 200)"
  shows "get_gatwick_metar ev calls = get_gatwick_metar_fallback ev (calls @ [GetCheckWX])"
  using assms by (auto simp: get_gatwick_metar_def requests_get_def primary_body_def)

lemma get_gatwick_metar_nodata:
  assumes "\<not> no_api_key ev"
    and "checkwx_response ev = Response 200 (Some (PDict kvs))"
    and "map_of kvs ''results'' = Some (PInt 0)"
  shows "get_gatwick_metar ev calls = (PNone, calls @ [GetCheckWX])"
  using assms
  by (simp add: get_gatwick_metar_def requests_get_def primary_body_def json_body_def dict_get_def)

lemma primary_failure_cases:
  "primary_failure ev = Some Unconfigured \<longleftrightarrow> no_api_key ev"
  "primary_failure ev = Some SourceUnavailable \<longleftrightarrow>
     \<not> no_api_key ev
     \<and> (checkwx_response ev = RequestFailed
        \<or> (\<exists>status_code body. checkwx_response ev = Response status_code body \<and> status_code \<noteq> 200))"
  "primary_failure ev = Some NoData \<longleftrightarrow>
     \<not> no_api_key ev
     \<and> (\<exists>kvs. checkwx_response ev = Response 200 (Some (PDict kvs))
              \<and> map_of kvs ''results'' = Some (PInt 0))"
  by (auto simp: primary_failure_def split: http_outcome.splits option.splits pyval.splits)

lemma primary_failure_result:
  "primary_failure ev = Some Unconfigured \<or> primary_failure ev = Some SourceUnavailable
   \<Longrightarrow> fst (get_gatwick_metar ev calls) = fst (get_gatwick_metar_fallback ev calls)
       \<and> last (snd (get_gatwick_metar ev calls)) = GetAviationWeather"
  "primary_failure ev = Some NoData
   \<Longrightarrow> get_gatwick_metar ev calls = (PNone, calls @ [GetCheckWX])"
proof -
  have "fst (get_gatwick_metar ev calls) = fst (get_gatwick_metar_fallback ev calls)
        \<and> last (snd (get_gatwick_metar ev calls)) = GetAviationWeather"
    if "primary_failure ev = Some Unconfigured"
    using that get_gatwick_metar_unconfigured [of ev calls]
    by (simp add: primary_failure_cases fallback_calls)
  moreover have "fst (get_gatwick_metar ev calls) = fst (get_gatwick_metar_fallback ev calls)
        \<and> last (snd (get_gatwick_metar ev calls)) = GetAviationWeather"
    if "primary_failure ev = Some SourceUnavailable"
    using that get_gatwick_metar_unavailable [of ev calls]
      fallback_result_independent [of ev "calls @ [GetCheckWX]" calls]
    by (simp add: primary_failure_cases fallback_calls)
  ultimately show "fst (get_gatwick_metar ev calls) = fst (get_gatwick_metar_fallback ev calls)
       \<and> last (snd (get_gatwick_metar ev calls)) = GetAviationWeather"
    if "primary_failure ev = Some Unconfigured \<or> primary_failure ev = Some SourceUnavailable"
    using that by blast
  show "get_gatwick_metar ev calls = (PNone, calls @ [GetCheckWX])"
    if "primary_failure ev = Some NoData"
    using that get_gatwick_metar_nodata [of ev _ calls]
    by (auto simp: primary_failure_cases)
qed

text \<open>
  C1, as the code has it. When the primary source fails as \<open>Unconfigured\<close> (no API key)
  or as \<open>SourceUnavailable\<close> (a non-200 response, or \<open>requests.get\<close> raises),
  \<open>get_gatwick_metar\<close> requests the fallback last and returns what
  \<open>get_gatwick_metar_fallback\<close> returns. When it fails as \<open>NoData\<close> (HTTP 200 with zero
  results), \<open>get_gatwick_metar\<close> returns \<open>None\<close> and the request to the primary is the
  only one: the fallback is not attempted.
\<close>

theorem primary_failure_policy:
  "(primary_failure ev = Some Unconfigured \<or> primary_failure ev = Some SourceUnavailable
      \<longrightarrow> fst (get_gatwick_metar ev calls) = fst (get_gatwick_metar_fallback ev calls)
          \<and> last (snd (get_gatwick_metar ev calls)) = GetAviationWeather)
   \<and> (primary_failure ev = Some NoData
      \<longrightarrow> get_gatwick_metar ev calls = (PNone, calls @ [GetCheckWX]))"
  using primary_failure_result [of ev calls] by blast

lemma unauthorized_env_failure: "primary_failure unauthorized_env = Some SourceUnavailable"
  by (simp add: primary_failure_def unauthorized_env_def no_api_key_def)

lemma nodata_env_failure: "primary_failure nodata_env = Some NoData"
  by (simp add: primary_failure_def nodata_env_def no_api_key_def)

lemma nodata_env_fallback:
  "fst (get_gatwick_metar_fallback nodata_env []) = PDict [(''raw_text'', PStr egkk_raw)]"
  by (simp add: get_gatwick_metar_fallback_def requests_get_def nodata_env_def fallback_body_def
      json_body_def)

theorem primary_failure_policy_witness:
  "primary_failure unauthorized_env = Some SourceUnavailable
   \<and> fst (get_gatwick_metar unauthorized_env []) = PDict [(''raw_text'', PStr egkk_raw)]
   \<and> last (snd (get_gatwick_metar unauthorized_env [])) = GetAviationWeather
   \<and> primary_failure all_down_env = Some Unconfigured
   \<and> fst (get_gatwick_metar all_down_env []) = fst (get_gatwick_metar_fallback all_down_env [])
   \<and> primary_failure nodata_env = Some NoData
   \<and> get_gatwick_metar nodata_env [] = (PNone, [GetCheckWX])"
proof -
  have "fst (get_gatwick_metar_fallback unauthorized_env []) = PDict [(''raw_text'', PStr egkk_raw)]"
    by (simp add: get_gatwick_metar_fallback_def requests_get_def unauthorized_env_def
        fallback_body_def json_body_def)
  moreover have "primary_failure all_down_env = Some Unconfigured"
    by (simp add: primary_failure_def all_down_env_def no_api_key_def)
  ultimately show ?thesis
    using primary_failure_policy [of unauthorized_env "[]"] primary_failure_policy [of nodata_env "[]"]
      primary_failure_policy [of all_down_env "[]"] unauthorized_env_failure nodata_env_failure
    by simp
qed

text \<open>
  C1 as stated fails for \<open>NoData\<close>: with a key configured, a primary answer of 200 with
  zero results and a fallback provider that has an observation, \<open>get_gatwick_metar\<close>
  returns \<open>None\<close> after the one request to the primary, while
  \<open>get_gatwick_metar_fallback\<close> returns the observation.
\<close>

theorem nodata_skips_fallback:
  "primary_failure nodata_env = Some NoData
   \<and> get_gatwick_metar nodata_env [] = (PNone, [GetCheckWX])
   \<and> fst (get_gatwick_metar_fallback nodata_env []) = PDict [(''raw_text'', PStr egkk_raw)]
   \<and> fst (get_gatwick_metar nodata_env []) \<noteq> fst (get_gatwick_metar_fallback nodata_env [])"
proof -
  have "get_gatwick_metar nodata_env [] = (PNone, [GetCheckWX])"
    using get_gatwick_metar_nodata [of nodata_env "[(''results'', PInt 0), (''data'', PList [])]" "[]"]
    by (simp add: nodata_env_def no_api_key_def)
  with nodata_env_failure nodata_env_fallback show ?thesis by simp
qed

subsection \<open>Both sources fail\<close>

lemma fallback_failure_none:
  "fallback_failure ev \<noteq> None \<Longrightarrow> fst (get_gatwick_metar_fallback ev calls) = PNone"
  by (auto simp: fallback_failure_def get_gatwick_metar_fallback_def requests_get_def
      fallback_body_def json_body_def split: http_outcome.splits if_splits)

lemma no_header_in_no_data_message:
  "\<not> sublist takeoff_sign no_data_message" "\<not> sublist header_line no_data_message"
proof -
  have "CHR 0xF0 \<notin> set no_data_message"
    by (simp add: no_data_message_def)
  moreover have "CHR 0xF0 \<in> set takeoff_sign" "CHR 0xF0 \<in> set header_line"
    by (simp_all add: takeoff_sign_def header_line_def)
  ultimately show "\<not> sublist takeoff_sign no_data_message" "\<not> sublist header_line no_data_message"
    using set_mono_sublist by blast+
qed

text \<open>
  C9. When the primary source fails (\<open>Unconfigured\<close>, \<open>NoData\<close> or \<open>SourceUnavailable\<close>)
  and the fallback source fails (\<open>NoData\<close> or \<open>SourceUnavailable\<close>), \<open>get_gatwick_metar\<close>
  returns \<open>None\<close>, and the text the webhook sends is the fixed message that the METAR
  data could not be retrieved, which contains neither the header line nor its
  take-off sign.
\<close>

theorem both_sources_fail:
  "primary_failure ev \<noteq> None \<and> fallback_failure ev \<noteq> None
   \<longrightarrow> fst (get_gatwick_metar ev []) = PNone
       \<and> webhook_reply rt ev = Message no_data_message
       \<and> \<not> sublist takeoff_sign no_data_message
       \<and> \<not> sublist header_line no_data_message"
proof (intro impI, elim conjE)
  assume p: "primary_failure ev \<noteq> None" and f: "fallback_failure ev \<noteq> None"
  from p obtain r where r: "primary_failure ev = Some r" by auto
  have none: "fst (get_gatwick_metar ev []) = PNone"
  proof (cases r)
    case NoData
    with r primary_failure_result [of ev "[]"] show ?thesis by simp
  next
    case Unconfigured
    with r primary_failure_result [of ev "[]"] fallback_failure_none [OF f, of "[]"]
    show ?thesis by simp
  next
    case SourceUnavailable
    with r primary_failure_result [of ev "[]"] fallback_failure_none [OF f, of "[]"]
    show ?thesis by simp
  qed
  then have "webhook_reply rt ev = Message no_data_message"
    by (cases "get_gatwick_metar ev []") (simp add: webhook_reply_def)
  with none no_header_in_no_data_message
  show "fst (get_gatwick_metar ev []) = PNone
       \<and> webhook_reply rt ev = Message no_data_message
       \<and> \<not> sublist takeoff_sign no_data_message
       \<and> \<not> sublist header_line no_data_message"
    by simp
qed

theorem both_sources_fail_witness:
  "primary_failure all_down_env = Some Unconfigured
   \<and> fallback_failure all_down_env = Some SourceUnavailable
   \<and> fst (get_gatwick_metar all_down_env []) = PNone
   \<and> webhook_reply cpython all_down_env = Message no_data_message"
proof -
  have "primary_failure all_down_env = Some Unconfigured"
    by (simp add: primary_failure_def all_down_env_def no_api_key_def)
  moreover have "fallback_failure all_down_env = Some SourceUnavailable"
    by (simp add: fallback_failure_def all_down_env_def)
  ultimately show ?thesis
    using both_sources_fail [of all_down_env cpython] by simp
qed

subsection \<open>The shape of what the normalizer returns\<close>

lemma key_present: "k \<in> fst ` set kvs \<longleftrightarrow> map_of kvs k \<noteq> None"
  by (simp add: map_of_eq_None_iff)

lemma aviationweather_obs_time_dict:
  "aviationweather_obs_time rt (PDict kvs) =
     Inr (case map_of kvs ''observation_time'' of None \<Rightarrow> ''N/A'' | Some t \<Rightarrow> shown_time rt t)"
  by (cases "map_of kvs ''observation_time''")
    (simp_all add: aviationweather_obs_time_def key_present)

text \<open>
  On a dict, only the cloud layers can make the extraction of the fallback schema
  raise.
\<close>

lemma aviationweather_report_dict:
  "aviationweather_report rt (PDict kvs) =
     (case aviationweather_clouds rt (PDict kvs) of
        Inl e \<Rightarrow> Inl e
      | Inr clouds \<Rightarrow>
          Inr (join_str newline2
                 (response_lines
                    (case map_of kvs ''observation_time'' of
                       None \<Rightarrow> ''N/A''
                     | Some t \<Rightarrow> shown_time rt t)
                    (py_str rt (dict_get kvs ''temp_c'' (PStr ''N/A'')))
                    (wind_info rt (dict_get kvs ''wind_dir_degrees'' (PStr ''N/A''))
                       (dict_get kvs ''wind_speed_kt'' (PStr ''N/A''))
                       (dict_get kvs ''wind_gust_kt'' (PStr [])))
                    (aviationweather_visibility rt
                       (dict_get kvs ''visibility_statute_mi'' (PStr ''N/A'')))
                    clouds
                    (py_str rt (dict_get kvs ''raw_text'' (PStr ''N/A''))))))"
  by (simp add: aviationweather_report_def aviationweather_obs_time_dict split: sum.splits)

lemma checkwx_report_Inr:
  assumes "checkwx_report rt md = Inr t"
  shows "\<exists>raw_metar observed temp_c wind_speed wind_direction wind_gust visibility
            visibility_km clouds.
           py_get md ''raw'' (PStr ''N/A'') = Inr raw_metar
         \<and> py_get md ''observed'' (PStr ''N/A'') = Inr observed
         \<and> nested_get md ''temperature'' ''celsius'' (PStr ''N/A'') = Inr temp_c
         \<and> nested_get md ''wind'' ''speed_kts'' (PStr ''N/A'') = Inr wind_speed
         \<and> nested_get md ''wind'' ''degrees'' (PStr ''N/A'') = Inr wind_direction
         \<and> nested_get md ''wind'' ''gust_kts'' (PStr []) = Inr wind_gust
         \<and> nested_get md ''visibility'' ''meters'' (PStr ''N/A'') = Inr visibility
         \<and> checkwx_visibility_km rt visibility = Inr visibility_km
         \<and> checkwx_clouds rt md = Inr clouds
         \<and> t = join_str newline2
                 (response_lines (py_str rt observed) (py_str rt temp_c)
                    (wind_info rt wind_direction wind_speed wind_gust)
                    visibility_km clouds (py_str rt raw_metar))"
  using assms unfolding checkwx_report_def ebind_Inr_iff by blast

lemma full_report_shape:
  assumes "checkwx_report rt md = Inr t \<or> aviationweather_report rt (PDict kvs) = Inr t"
  shows "\<exists>obs temp wind vis clouds raw.
           t = join_str newline2 (response_lines obs temp wind vis clouds raw)"
  using assms
proof
  assume "checkwx_report rt md = Inr t"
  from checkwx_report_Inr [OF this] show ?thesis by blast
next
  assume "aviationweather_report rt (PDict kvs) = Inr t"
  then show ?thesis
    by (simp add: aviationweather_report_dict split: sum.splits) blast
qed

lemma response_lines_nonempty:
  "length (response_lines obs temp wind vis clouds raw) = 7"
  "list_all (\<lambda>l. l \<noteq> []) (response_lines obs temp wind vis clouds raw)"
  by (simp_all add: response_lines_def header_line_def takeoff_sign_def observed_label_def
      temperature_label_def wind_label_def visibility_label_def clouds_label_def raw_label_def)

text \<open>The result for a dict by schema and by whether the extraction raised.\<close>

lemma parse_fallback_schema:
  assumes "map_of kvs ''raw_text'' = Some raw_text"
  shows "parse_metar_for_human rt (PDict kvs) =
           Inr (case aviationweather_report rt (PDict kvs) of
                  Inr t \<Rightarrow> t
                | Inl e \<Rightarrow> ''Gatwick METAR: '' @ py_str rt raw_text)"
  using assms
  by (simp add: parse_metar_for_human_dict dispatch_dict parse_aviationweather_metar_dict
      key_present dict_get_def split: sum.splits)

lemma parse_primary_schema:
  assumes "map_of kvs ''raw_text'' = None"
  shows "parse_metar_for_human rt (PDict kvs) =
           Inr (case checkwx_report rt (PDict kvs) of
                  Inr t \<Rightarrow> t
                | Inl e \<Rightarrow> ''Gatwick METAR: ''
                           @ py_str rt (dict_get kvs ''raw'' (PStr ''Data unavailable'')))"
  using assms
  by (simp add: parse_metar_for_human_dict dispatch_dict parse_checkwx_metar_dict key_present)

lemma parse_dict_shape:
  "\<exists>t. parse_metar_for_human rt (PDict kvs) = Inr t
       \<and> ((\<exists>obs temp wind vis clouds raw.
              t = join_str newline2 (response_lines obs temp wind vis clouds raw))
          \<or> t = ''Gatwick METAR: ''
                 @ py_str rt (dict_get kvs
                               (if ''raw_text'' \<in> fst ` set kvs then ''raw_text'' else ''raw'')
                               (PStr ''Data unavailable'')))"
proof (cases "map_of kvs ''raw_text''")
  case None
  show ?thesis
  proof (cases "checkwx_report rt (PDict kvs)")
    case (Inl e)
    with None show ?thesis
      by (simp add: parse_primary_schema key_present)
  next
    case (Inr t)
    with None full_report_shape [of rt "PDict kvs" t kvs] show ?thesis
      by (simp add: parse_primary_schema key_present)
  qed
next
  case (Some raw_text)
  show ?thesis
  proof (cases "aviationweather_report rt (PDict kvs)")
    case (Inl e)
    with Some show ?thesis
      by (simp add: parse_fallback_schema key_present dict_get_def)
  next
    case (Inr t)
    with Some full_report_shape [of rt "PDict kvs" t kvs] show ?thesis
      by (simp add: parse_fallback_schema key_present)
  qed
qed

lemma parse_empty_dict:
  "parse_metar_for_human rt (PDict []) =
     Inr (join_str newline2
            (response_lines ''N/A'' ''N/A'' (''N/A'' @ degree_sign @ '' at N/A knots'') ''N/A''
               no_cloud_data ''N/A''))"
  by (simp add: parse_primary_schema checkwx_report_def nested_get_def dict_get_def
      checkwx_visibility_km_def checkwx_clouds_def py_str_def wind_info_def)

lemma parse_raw_text_only:
  "parse_metar_for_human rt (PDict [(''raw_text'', raw_text)]) =
     Inr (join_str newline2
            (response_lines ''N/A'' ''N/A'' (''N/A'' @ degree_sign @ '' at N/A knots'') ''N/A''
               no_cloud_data (py_str rt raw_text)))"
  by (simp add: parse_fallback_schema aviationweather_report_dict dict_get_def
      aviationweather_visibility_def aviationweather_clouds_def py_str_def wind_info_def)

subsection \<open>The report of a dict observation\<close>

lemma checkwx_example_extracted:
  "checkwx_report rt checkwx_example =
     Inr (join_str newline2
            (response_lines ''2024-01-01T05:20:00Z'' ''12'' (''270'' @ degree_sign @ '' at 15 knots'')
               ''9.0 km'' ''FEW at 2500 ft'' egkk_raw))"
  unfolding checkwx_example_def
  apply (simp add: checkwx_report_def nested_get_def dict_get_def
      checkwx_clouds_def py_str_def wind_info_def layer_entry_def join_layers_def)
  apply (simp add: checkwx_visibility_km_def)
  apply code_simp
  done

lemma checkwx_example_report:
  "parse_metar_for_human rt checkwx_example =
     Inr (join_str newline2
            (response_lines ''2024-01-01T05:20:00Z'' ''12'' (''270'' @ degree_sign @ '' at 15 knots'')
               ''9.0 km'' ''FEW at 2500 ft'' egkk_raw))"
  using checkwx_example_extracted [of rt]
  by (simp add: checkwx_example_def parse_primary_schema)

lemma null_temperature_report:
  "parse_metar_for_human rt null_temperature_example = Inr (''Gatwick METAR: '' @ egkk_raw)"
  by (simp add: null_temperature_example_def parse_primary_schema checkwx_report_def nested_get_def dict_get_def py_str_def)

lemma not_sublist_by_char: "c \<in> set xs \<Longrightarrow> c \<notin> set ys \<Longrightarrow> \<not> sublist xs ys"
  using set_mono_sublist by blast

lemma raises_iff: "raises r \<longleftrightarrow> (\<exists>e. r = Inl e)"
  by (cases r) (simp_all add: raises_def)

lemma raises_simps [simp]: "raises (Inl e)" "\<not> raises (Inr x)"
  by (simp_all add: raises_def)

lemma nested_get_cases:
  "nested_get (PDict kvs) outer inner d =
     (if is_dict (dict_get kvs outer (PDict []))
      then Inr (dict_get (fields_of (dict_get kvs outer (PDict []))) inner d)
      else Inl AttributeError)"
  by (cases "dict_get kvs outer (PDict [])") (simp_all add: nested_get_def is_dict_def fields_of_def)

lemma cloud_layers_cases:
  "cloud_layers rt code_key altitude_key cls =
     (if list_all is_dict cls then Inr (layer_texts rt code_key altitude_key cls)
      else Inl AttributeError)"
proof (induction cls)
  case Nil
  show ?case by (simp add: layer_texts_def)
next
  case (Cons cloud rest)
  show ?case
  proof (cases cloud)
    case (PDict l)
    with Cons show ?thesis
      by (simp add: is_dict_def fields_of_def layer_texts_def)
  qed (simp_all add: is_dict_def)
qed

lemma codepoints_nonempty: "s \<noteq> [] \<Longrightarrow> \<exists>c cs. codepoints s = c # cs"
  by (cases s) simp_all

lemma checkwx_clouds_cases:
  "(primary_clouds_raise kvs \<longrightarrow> raises (checkwx_clouds rt (PDict kvs)))
   \<and> (\<not> primary_clouds_raise kvs
      \<longrightarrow> checkwx_clouds rt (PDict kvs) = Inr (primary_clouds_text rt kvs))"
proof (cases "map_of kvs ''clouds''")
  case None
  then show ?thesis
    by (simp add: checkwx_clouds_def primary_clouds_raise_def primary_clouds_text_def key_present)
next
  case (Some cl)
  show ?thesis
  proof (cases cl)
    case (PList cls)
    with Some show ?thesis
      by (cases cls)
        (simp_all add: checkwx_clouds_def primary_clouds_raise_def primary_clouds_text_def
          key_present cloud_layers_cases join_layers_def layer_texts_def)
  next
    case (PStr s)
    with Some codepoints_nonempty [of s] show ?thesis
      by (cases "s = []")
        (auto simp: checkwx_clouds_def primary_clouds_raise_def primary_clouds_text_def
          key_present is_dict_def)
  next
    case (PDict l)
    with Some show ?thesis
      by (cases l)
        (auto simp: checkwx_clouds_def primary_clouds_raise_def primary_clouds_text_def
          key_present is_dict_def)
  qed (use Some in \<open>simp_all add: checkwx_clouds_def primary_clouds_raise_def
          primary_clouds_text_def key_present\<close>)
qed

lemma checkwx_visibility_cases:
  "checkwx_visibility_km rt v =
     (if v = PStr ''N/A'' then Inr ''N/A''
      else (case py_float rt v of
              Inr x \<Rightarrow> Inr (format_1f (float_scale x (1 / 1000)) @ '' km'')
            | Inl e \<Rightarrow> Inl e))"
  by (simp add: checkwx_visibility_km_def split: sum.splits)

lemma checkwx_report_ok:
  assumes "\<not> primary_raises rt kvs"
  shows "checkwx_report rt (PDict kvs) = Inr (join_str newline2 (primary_lines rt kvs))"
proof -
  from assms have d: "is_dict (dict_get kvs ''temperature'' (PDict []))"
    "is_dict (dict_get kvs ''wind'' (PDict []))"
    "is_dict (dict_get kvs ''visibility'' (PDict []))"
    and m: "primary_meters kvs = PStr ''N/A'' \<or> \<not> raises (py_float rt (primary_meters kvs))"
    and c: "\<not> primary_clouds_raise kvs"
    by (auto simp: primary_raises_def)
  from c have clouds: "checkwx_clouds rt (PDict kvs) = Inr (primary_clouds_text rt kvs)"
    using checkwx_clouds_cases [of kvs rt] by simp
  from m have vis: "checkwx_visibility_km rt (primary_meters kvs) =
      Inr (primary_visibility_text rt kvs)"
    by (cases "py_float rt (primary_meters kvs)")
      (auto simp: checkwx_visibility_cases primary_visibility_text_def)
  have vis': "checkwx_visibility_km rt
      (dict_get (fields_of (dict_get kvs ''visibility'' (PDict []))) ''meters'' (PStr ''N/A'')) =
      Inr (primary_visibility_text rt kvs)"
    using vis by (simp add: primary_meters_def)
  show ?thesis
    unfolding checkwx_report_def nested_get_cases
    by (simp only: d if_True ebind_Inr py_get.simps clouds vis' primary_lines_def)
qed

lemma checkwx_report_raises:
  assumes "primary_raises rt kvs"
  shows "raises (checkwx_report rt (PDict kvs))"
proof (rule ccontr)
  assume "\<not> ?thesis"
  then obtain t where "checkwx_report rt (PDict kvs) = Inr t"
    by (cases "checkwx_report rt (PDict kvs)") auto
  from checkwx_report_Inr [OF this]
  obtain temp_c wind_speed visibility visibility_km clouds
    where t: "nested_get (PDict kvs) ''temperature'' ''celsius'' (PStr ''N/A'') = Inr temp_c"
      and w: "nested_get (PDict kvs) ''wind'' ''speed_kts'' (PStr ''N/A'') = Inr wind_speed"
      and v: "nested_get (PDict kvs) ''visibility'' ''meters'' (PStr ''N/A'') = Inr visibility"
      and k: "checkwx_visibility_km rt visibility = Inr visibility_km"
      and c: "checkwx_clouds rt (PDict kvs) = Inr clouds"
    by blast
  from t have "is_dict (dict_get kvs ''temperature'' (PDict []))"
    by (simp add: nested_get_cases split: if_splits)
  moreover from w have "is_dict (dict_get kvs ''wind'' (PDict []))"
    by (simp add: nested_get_cases split: if_splits)
  moreover from v have "is_dict (dict_get kvs ''visibility'' (PDict []))"
    and vm: "visibility = primary_meters kvs"
    by (auto simp: nested_get_cases primary_meters_def split: if_splits)
  moreover from k vm
  have "primary_meters kvs = PStr ''N/A'' \<or> \<not> raises (py_float rt (primary_meters kvs))"
    by (cases "py_float rt (primary_meters kvs)")
      (auto simp: checkwx_visibility_cases split: if_splits)
  moreover from c have "\<not> primary_clouds_raise kvs"
    using checkwx_clouds_cases [of kvs rt] by auto
  ultimately show False
    using assms by (auto simp: primary_raises_def)
qed

lemma aviationweather_clouds_cases:
  "aviationweather_clouds rt (PDict kvs) =
     (if fallback_raises kvs then Inl AttributeError else Inr (fallback_clouds_text rt kvs))"
proof (cases "map_of kvs ''sky_condition''")
  case None
  then show ?thesis
    by (simp add: aviationweather_clouds_def fallback_raises_def fallback_clouds_text_def
        key_present)
next
  case (Some sky)
  then show ?thesis
    by (cases sky)
      (simp_all add: aviationweather_clouds_def fallback_raises_def fallback_clouds_text_def
        key_present cloud_layers_cases)
qed

lemma aviationweather_report_cases:
  "aviationweather_report rt (PDict kvs) =
     (if fallback_raises kvs then Inl AttributeError
      else Inr (join_str newline2 (fallback_lines rt kvs)))"
  by (simp add: aviationweather_report_dict aviationweather_clouds_cases fallback_lines_def)

lemma extraction_raises_iff:
  "raises (checkwx_report rt (PDict kvs)) \<longleftrightarrow> primary_raises rt kvs"
  "raises (aviationweather_report rt (PDict kvs)) \<longleftrightarrow> fallback_raises kvs"
proof -
  show "raises (checkwx_report rt (PDict kvs)) \<longleftrightarrow> primary_raises rt kvs"
    using checkwx_report_raises [of rt kvs] checkwx_report_ok [of rt kvs]
    by (cases "primary_raises rt kvs") simp_all
  show "raises (aviationweather_report rt (PDict kvs)) \<longleftrightarrow> fallback_raises kvs"
    by (simp add: aviationweather_report_cases)
qed

lemma parse_dict_exact:
  "parse_metar_for_human rt (PDict kvs) =
     Inr (if ''raw_text'' \<in> fst ` set kvs
          then (if fallback_raises kvs
                then ''Gatwick METAR: ''
                     @ py_str rt (dict_get kvs ''raw_text'' (PStr ''Data unavailable''))
                else join_str newline2 (fallback_lines rt kvs))
          else (if primary_raises rt kvs
                then ''Gatwick METAR: ''
                     @ py_str rt (dict_get kvs ''raw'' (PStr ''Data unavailable''))
                else join_str newline2 (primary_lines rt kvs)))"
proof (cases "map_of kvs ''raw_text''")
  case None
  show ?thesis
  proof (cases "primary_raises rt kvs")
    case True
    from checkwx_report_raises [OF this] obtain e where "checkwx_report rt (PDict kvs) = Inl e"
      by (auto simp: raises_iff)
    with None True show ?thesis
      by (simp add: parse_primary_schema key_present)
  next
    case False
    with None checkwx_report_ok [OF False] show ?thesis
      by (simp add: parse_primary_schema key_present)
  qed
next
  case (Some raw_text)
  then show ?thesis
    by (simp add: parse_fallback_schema key_present aviationweather_report_cases dict_get_def)
qed

lemma lines_nonempty:
  "length (primary_lines rt kvs) = 7" "list_all (\<lambda>l. l \<noteq> []) (primary_lines rt kvs)"
  "length (fallback_lines rt kvs) = 7" "list_all (\<lambda>l. l \<noteq> []) (fallback_lines rt kvs)"
  by (simp_all add: primary_lines_def fallback_lines_def response_lines_nonempty)

lemma response_lines_nth:
  "response_lines obs temp wind vis clouds raw ! 0 = header_line"
  "response_lines obs temp wind vis clouds raw ! 1 = observed_label @ obs"
  "response_lines obs temp wind vis clouds raw ! 2 = temperature_label @ temp @ degree_sign @ ''C''"
  "response_lines obs temp wind vis clouds raw ! 3 = wind_label @ wind"
  "response_lines obs temp wind vis clouds raw ! 4 = visibility_label @ vis"
  "response_lines obs temp wind vis clouds raw ! 5 = clouds_label @ clouds"
  "response_lines obs temp wind vis clouds raw ! 6 = raw_label @ raw"
  by (simp_all add: response_lines_def)

lemma dict_get_absent: "map_of kvs k = None \<Longrightarrow> dict_get kvs k d = d"
  by (simp add: dict_get_def)

lemma wind_info_absent:
  "wind_info rt (PStr ''N/A'') (PStr ''N/A'') (PStr []) = ''N/A'' @ degree_sign @ '' at N/A knots''"
  by (simp add: wind_info_def py_str_def)

lemma primary_placeholders:
  "map_of kvs ''observed'' = None \<Longrightarrow> primary_lines rt kvs ! 1 = observed_label @ ''N/A''"
  "map_of kvs ''temperature'' = None
   \<Longrightarrow> primary_lines rt kvs ! 2 = temperature_label @ ''N/A'' @ degree_sign @ ''C''"
  "map_of kvs ''wind'' = None
   \<Longrightarrow> primary_lines rt kvs ! 3 = wind_label @ ''N/A'' @ degree_sign @ '' at N/A knots''"
  "map_of kvs ''visibility'' = None \<Longrightarrow> primary_lines rt kvs ! 4 = visibility_label @ ''N/A''"
  "map_of kvs ''clouds'' = None \<Longrightarrow> primary_lines rt kvs ! 5 = clouds_label @ no_cloud_data"
  "map_of kvs ''raw'' = None \<Longrightarrow> primary_lines rt kvs ! 6 = raw_label @ ''N/A''"
  unfolding primary_lines_def response_lines_nth
  by (simp_all add: dict_get_absent fields_of_def wind_info_absent primary_visibility_text_def
      primary_meters_def primary_clouds_text_def py_str_def)

lemma fallback_placeholders:
  "map_of kvs ''observation_time'' = None
   \<Longrightarrow> fallback_lines rt kvs ! 1 = observed_label @ ''N/A''"
  "map_of kvs ''temp_c'' = None
   \<Longrightarrow> fallback_lines rt kvs ! 2 = temperature_label @ ''N/A'' @ degree_sign @ ''C''"
  "map_of kvs ''wind_dir_degrees'' = None \<Longrightarrow> map_of kvs ''wind_speed_kt'' = None
   \<Longrightarrow> map_of kvs ''wind_gust_kt'' = None
   \<Longrightarrow> fallback_lines rt kvs ! 3 = wind_label @ ''N/A'' @ degree_sign @ '' at N/A knots''"
  "map_of kvs ''visibility_statute_mi'' = None
   \<Longrightarrow> fallback_lines rt kvs ! 4 = visibility_label @ ''N/A''"
  "map_of kvs ''sky_condition'' = None
   \<Longrightarrow> fallback_lines rt kvs ! 5 = clouds_label @ no_cloud_data"
  unfolding fallback_lines_def response_lines_nth
  by (simp_all add: dict_get_absent wind_info_absent aviationweather_visibility_def
      fallback_clouds_text_def py_str_def)

lemma checkwx_example_extractable: "\<not> primary_raises rt (fields_of checkwx_example)"
  using checkwx_example_extracted [of rt] extraction_raises_iff(1) [of rt "fields_of checkwx_example"]
  by (simp add: checkwx_example_def fields_of_def)

text \<open>
  C2, as the code has it. For every observation that is a dict, \<open>parse_metar_for_human\<close>
  returns a text and raises nothing. Exactly when the schema-specific extraction does
  not raise, the text is the report of seven lines (header, observed time, temperature,
  wind, visibility, clouds, raw METAR), none of them empty, built from the fields as
  \<open>primary_lines\<close> and \<open>fallback_lines\<close> say; exactly when it raises, the text is the
  single line \<open>Gatwick METAR: \<close> followed by the raw text (\<open>Data unavailable\<close> when the
  key is absent). The extraction of the primary schema raises exactly when
  \<open>temperature\<close>, \<open>wind\<close> or \<open>visibility\<close> is present and no object, when the meters are
  not the text \<open>N/A\<close> and \<open>float\<close> rejects them, or when \<open>clouds\<close> is truthy and no list
  of objects; that of the fallback schema exactly when \<open>sky_condition\<close> is a list with an
  element that is no object. In the report of seven lines every absent field shows
  its placeholder: \<open>N/A\<close> for the observed time, the temperature, the wind direction and
  speed, the visibility and the raw text, and \<open>No cloud data\<close> for the clouds.
\<close>

theorem report_shape:
  "parse_metar_for_human rt (PDict kvs) =
     Inr (if ''raw_text'' \<in> fst ` set kvs
          then (if raises (aviationweather_report rt (PDict kvs))
                then ''Gatwick METAR: ''
                     @ py_str rt (dict_get kvs ''raw_text'' (PStr ''Data unavailable''))
                else join_str newline2 (fallback_lines rt kvs))
          else (if raises (checkwx_report rt (PDict kvs))
                then ''Gatwick METAR: ''
                     @ py_str rt (dict_get kvs ''raw'' (PStr ''Data unavailable''))
                else join_str newline2 (primary_lines rt kvs)))
   \<and> raises (checkwx_report rt (PDict kvs)) = primary_raises rt kvs
   \<and> raises (aviationweather_report rt (PDict kvs)) = fallback_raises kvs
   \<and> length (primary_lines rt kvs) = 7 \<and> list_all (\<lambda>l. l \<noteq> []) (primary_lines rt kvs)
   \<and> length (fallback_lines rt kvs) = 7 \<and> list_all (\<lambda>l. l \<noteq> []) (fallback_lines rt kvs)
   \<and> (map_of kvs ''observed'' = None \<longrightarrow> primary_lines rt kvs ! 1 = observed_label @ ''N/A'')
   \<and> (map_of kvs ''temperature'' = None
      \<longrightarrow> primary_lines rt kvs ! 2 = temperature_label @ ''N/A'' @ degree_sign @ ''C'')
   \<and> (map_of kvs ''wind'' = None
      \<longrightarrow> primary_lines rt kvs ! 3 = wind_label @ ''N/A'' @ degree_sign @ '' at N/A knots'')
   \<and> (map_of kvs ''visibility'' = None \<longrightarrow> primary_lines rt kvs ! 4 = visibility_label @ ''N/A'')
   \<and> (map_of kvs ''clouds'' = None \<longrightarrow> primary_lines rt kvs ! 5 = clouds_label @ no_cloud_data)
   \<and> (map_of kvs ''raw'' = None \<longrightarrow> primary_lines rt kvs ! 6 = raw_label @ ''N/A'')
   \<and> (map_of kvs ''observation_time'' = None
      \<longrightarrow> fallback_lines rt kvs ! 1 = observed_label @ ''N/A'')
   \<and> (map_of kvs ''temp_c'' = None
      \<longrightarrow> fallback_lines rt kvs ! 2 = temperature_label @ ''N/A'' @ degree_sign @ ''C'')
   \<and> (map_of kvs ''wind_dir_degrees'' = None \<and> map_of kvs ''wind_speed_kt'' = None
        \<and> map_of kvs ''wind_gust_kt'' = None
      \<longrightarrow> fallback_lines rt kvs ! 3 = wind_label @ ''N/A'' @ degree_sign @ '' at N/A knots'')
   \<and> (map_of kvs ''visibility_statute_mi'' = None
      \<longrightarrow> fallback_lines rt kvs ! 4 = visibility_label @ ''N/A'')
   \<and> (map_of kvs ''sky_condition'' = None
      \<longrightarrow> fallback_lines rt kvs ! 5 = clouds_label @ no_cloud_data)"
  using parse_dict_exact [of rt kvs] extraction_raises_iff [of rt kvs] lines_nonempty [of rt kvs]
    primary_placeholders [of kvs rt] fallback_placeholders [of kvs rt]
  by (simp only: simp_thms) blast

theorem report_shape_witness:
  "parse_metar_for_human cpython checkwx_example =
     Inr (join_str newline2 (primary_lines cpython (fields_of checkwx_example)))
   \<and> parse_metar_for_human cpython checkwx_example =
       Inr (join_str newline2
              (response_lines ''2024-01-01T05:20:00Z'' ''12''
                 (''270'' @ degree_sign @ '' at 15 knots'') ''9.0 km'' ''FEW at 2500 ft'' egkk_raw))
   \<and> primary_raises cpython (fields_of null_temperature_example)
   \<and> parse_metar_for_human cpython null_temperature_example = Inr (''Gatwick METAR: '' @ egkk_raw)
   \<and> fallback_raises (fields_of text_layer_example)
   \<and> parse_metar_for_human cpython text_layer_example = Inr (''Gatwick METAR: '' @ egkk_raw)
   \<and> parse_metar_for_human cpython (PDict []) = Inr (join_str newline2 (primary_lines cpython []))
   \<and> primary_lines cpython [] =
       response_lines ''N/A'' ''N/A'' (''N/A'' @ degree_sign @ '' at N/A knots'') ''N/A''
         no_cloud_data ''N/A''
   \<and> parse_metar_for_human cpython (PDict [(''raw_text'', PStr egkk_raw)]) =
       Inr (join_str newline2 (fallback_lines cpython [(''raw_text'', PStr egkk_raw)]))
   \<and> fallback_lines cpython [(''raw_text'', PStr egkk_raw)] =
       response_lines ''N/A'' ''N/A'' (''N/A'' @ degree_sign @ '' at N/A knots'') ''N/A''
         no_cloud_data egkk_raw"
proof -
  have ex: "parse_metar_for_human cpython checkwx_example =
     Inr (join_str newline2 (primary_lines cpython (fields_of checkwx_example)))"
    using report_shape [of cpython "fields_of checkwx_example"]
      checkwx_example_extractable [of cpython]
    by (simp add: checkwx_example_def fields_of_def)
  have nt: "primary_raises cpython (fields_of null_temperature_example)"
    by (simp add: primary_raises_def null_temperature_example_def fields_of_def dict_get_def
        is_dict_def)
  have nt': "parse_metar_for_human cpython null_temperature_example =
      Inr (''Gatwick METAR: '' @ egkk_raw)"
    using report_shape [of cpython "fields_of null_temperature_example"] nt
    by (simp add: null_temperature_example_def fields_of_def dict_get_def py_str_def)
  have tl: "fallback_raises (fields_of text_layer_example)"
    by (simp add: fallback_raises_def text_layer_example_def fields_of_def is_dict_def)
  have tl': "parse_metar_for_human cpython text_layer_example = Inr (''Gatwick METAR: '' @ egkk_raw)"
    using report_shape [of cpython "fields_of text_layer_example"] tl
    by (simp add: text_layer_example_def fields_of_def dict_get_def py_str_def)
  have e0: "\<not> primary_raises cpython []"
    by (simp add: primary_raises_def dict_get_def is_dict_def primary_meters_def fields_of_def
        primary_clouds_raise_def)
  have emp: "parse_metar_for_human cpython (PDict []) =
      Inr (join_str newline2 (primary_lines cpython []))"
    using report_shape [of cpython "[]"] e0 by simp
  have emp': "primary_lines cpython [] =
       response_lines ''N/A'' ''N/A'' (''N/A'' @ degree_sign @ '' at N/A knots'') ''N/A''
         no_cloud_data ''N/A''"
    by (simp add: primary_lines_def dict_get_def fields_of_def py_str_def wind_info_def
        primary_visibility_text_def primary_meters_def primary_clouds_text_def)
  have f0: "\<not> fallback_raises [(''raw_text'', PStr egkk_raw)]"
    by (simp add: fallback_raises_def)
  have fb: "parse_metar_for_human cpython (PDict [(''raw_text'', PStr egkk_raw)]) =
       Inr (join_str newline2 (fallback_lines cpython [(''raw_text'', PStr egkk_raw)]))"
    using report_shape [of cpython "[(''raw_text'', PStr egkk_raw)]"] f0 by simp
  have fb': "fallback_lines cpython [(''raw_text'', PStr egkk_raw)] =
       response_lines ''N/A'' ''N/A'' (''N/A'' @ degree_sign @ '' at N/A knots'') ''N/A''
         no_cloud_data egkk_raw"
    by (simp add: fallback_lines_def dict_get_def py_str_def wind_info_def
        aviationweather_visibility_def fallback_clouds_text_def)
  from ex checkwx_example_report [of cpython] nt nt' tl tl' emp emp' fb fb'
  show ?thesis by (simp only: simp_thms)
qed

text \<open>
  C2 as stated fails when the extraction raises: a primary-schema observation whose
  temperature is null (\<open>None\<close> has no \<open>get\<close>) yields the single line with the raw text,
  which has no header line and no line separator.
\<close>

theorem degraded_report_loses_lines:
  "parse_metar_for_human cpython null_temperature_example = Inr (''Gatwick METAR: '' @ egkk_raw)
   \<and> \<not> sublist header_line (''Gatwick METAR: '' @ egkk_raw)
   \<and> \<not> sublist newline2 (''Gatwick METAR: '' @ egkk_raw)"
proof -
  have "\<not> sublist header_line (''Gatwick METAR: '' @ egkk_raw)"
    by (rule not_sublist_by_char [of "CHR 0xF0"])
      (simp_all add: header_line_def takeoff_sign_def egkk_raw_def)
  moreover have "\<not> sublist newline2 (''Gatwick METAR: '' @ egkk_raw)"
    by (rule not_sublist_by_char [of "CHR 0x0A"]) (simp_all add: newline2_def egkk_raw_def)
  ultimately show ?thesis
    using null_temperature_report [of cpython] by simp
qed

subsection \<open>When the extraction raises\<close>

lemma report_not_apology:
  "join_str newline2 (response_lines obs temp wind vis clouds raw) \<noteq> apology"
  by (simp add: response_lines_def header_line_def takeoff_sign_def apology_def)

lemma parse_dict_not_apology: "parse_metar_for_human rt (PDict kvs) \<noteq> Inr apology"
proof
  assume "parse_metar_for_human rt (PDict kvs) = Inr apology"
  with parse_dict_shape [of rt kvs]
  consider obs temp wind vis clouds raw
      where "apology = join_str newline2 (response_lines obs temp wind vis clouds raw)"
    | raw where "apology = ''Gatwick METAR: '' @ raw"
    by auto
  then show False
  proof cases
    case 1
    with report_not_apology show False by metis
  next
    case 2
    then show False by (simp add: apology_def)
  qed
qed

lemma null_temperature_raises: "checkwx_report rt null_temperature_example = Inl AttributeError"
  by (simp add: null_temperature_example_def checkwx_report_def nested_get_def dict_get_def)

lemma text_temperature_raises: "checkwx_report rt text_temperature_example = Inl AttributeError"
  by (simp add: text_temperature_example_def checkwx_report_def nested_get_def dict_get_def)

lemma text_layer_raises: "aviationweather_report rt text_layer_example = Inl AttributeError"
  by (simp add: text_layer_example_def aviationweather_report_dict aviationweather_clouds_def)

text \<open>
  C3, as the code has it. For every observation that is a dict, \<open>parse_metar_for_human\<close>
  raises nothing. When the schema-specific extraction raises, it returns
  \<open>Gatwick METAR: \<close> followed by the text of \<open>raw_text\<close> when that key is present, by
  the text of \<open>raw\<close> when \<open>raw_text\<close> is absent and \<open>raw\<close> is present, and by
  \<open>Data unavailable\<close> when both are absent. The text comes from the handler of the
  schema's own parser; the handler of \<open>parse_metar_for_human\<close> with its apology is not
  reached, and the apology is never the result.
\<close>

theorem raw_text_fallback:
  "(\<exists>t. parse_metar_for_human rt (PDict kvs) = Inr t)
   \<and> parse_metar_for_human rt (PDict kvs) \<noteq> Inr apology
   \<and> (map_of kvs ''raw_text'' = Some raw \<and> aviationweather_report rt (PDict kvs) = Inl e
      \<longrightarrow> parse_metar_for_human rt (PDict kvs) = Inr (''Gatwick METAR: '' @ py_str rt raw))
   \<and> (map_of kvs ''raw_text'' = None \<and> map_of kvs ''raw'' = Some raw
        \<and> checkwx_report rt (PDict kvs) = Inl e
      \<longrightarrow> parse_metar_for_human rt (PDict kvs) = Inr (''Gatwick METAR: '' @ py_str rt raw))
   \<and> (map_of kvs ''raw_text'' = None \<and> map_of kvs ''raw'' = None
        \<and> checkwx_report rt (PDict kvs) = Inl e
      \<longrightarrow> parse_metar_for_human rt (PDict kvs) = Inr ''Gatwick METAR: Data unavailable'')"
proof -
  have "\<exists>t. parse_metar_for_human rt (PDict kvs) = Inr t"
    using parse_dict_shape [of rt kvs] by blast
  moreover have "parse_metar_for_human rt (PDict kvs) = Inr (''Gatwick METAR: '' @ py_str rt raw)"
    if "map_of kvs ''raw_text'' = Some raw" "aviationweather_report rt (PDict kvs) = Inl e"
    using that by (simp add: parse_fallback_schema)
  moreover have "parse_metar_for_human rt (PDict kvs) = Inr (''Gatwick METAR: '' @ py_str rt raw)"
    if "map_of kvs ''raw_text'' = None" "map_of kvs ''raw'' = Some raw"
      "checkwx_report rt (PDict kvs) = Inl e"
    using that by (simp add: parse_primary_schema dict_get_def)
  moreover have "parse_metar_for_human rt (PDict kvs) = Inr ''Gatwick METAR: Data unavailable''"
    if "map_of kvs ''raw_text'' = None" "map_of kvs ''raw'' = None"
      "checkwx_report rt (PDict kvs) = Inl e"
    using that by (simp add: parse_primary_schema dict_get_def py_str_def)
  ultimately show ?thesis
    using parse_dict_not_apology [of rt kvs] by blast
qed

theorem raw_text_fallback_witness:
  "aviationweather_report cpython text_layer_example = Inl AttributeError
   \<and> parse_metar_for_human cpython text_layer_example = Inr (''Gatwick METAR: '' @ egkk_raw)
   \<and> checkwx_report cpython null_temperature_example = Inl AttributeError
   \<and> parse_metar_for_human cpython null_temperature_example = Inr (''Gatwick METAR: '' @ egkk_raw)
   \<and> checkwx_report cpython text_temperature_example = Inl AttributeError
   \<and> parse_metar_for_human cpython text_temperature_example = Inr ''Gatwick METAR: Data unavailable''"
  using raw_text_fallback [of cpython
      "[(''raw_text'', PStr egkk_raw), (''sky_condition'', PList [PStr ''FEW025''])]"
      "PStr egkk_raw" AttributeError]
    raw_text_fallback [of cpython "[(''raw'', PStr egkk_raw), (''temperature'', PNone)]"
      "PStr egkk_raw" AttributeError]
    raw_text_fallback [of cpython "[(''temperature'', PStr ''12'')]" _ AttributeError]
    text_layer_raises [of cpython] null_temperature_raises [of cpython]
    text_temperature_raises [of cpython]
  by (simp add: text_layer_example_def null_temperature_example_def text_temperature_example_def
      py_str_def)

text \<open>
  C3 as stated fails where neither key is present: for a primary-schema observation
  whose temperature is a text (a text has no \<open>get\<close>), the claim's rule, which is the
  handler of lines 96 to 101, gives the apology, and \<open>parse_metar_for_human\<close> returns
  \<open>Gatwick METAR: Data unavailable\<close>.
\<close>

theorem apology_not_returned:
  "checkwx_report cpython text_temperature_example = Inl AttributeError
   \<and> raw_only cpython text_temperature_example = Inr apology
   \<and> parse_metar_for_human cpython text_temperature_example = Inr ''Gatwick METAR: Data unavailable''
   \<and> parse_metar_for_human cpython text_temperature_example \<noteq> raw_only cpython text_temperature_example"
proof -
  have "raw_only cpython text_temperature_example = Inr apology"
    by (simp add: raw_only_def text_temperature_example_def)
  moreover have "parse_metar_for_human cpython text_temperature_example =
      Inr ''Gatwick METAR: Data unavailable''"
    using text_temperature_raises [of cpython]
    by (simp add: text_temperature_example_def parse_primary_schema dict_get_def py_str_def)
  ultimately show ?thesis
    using text_temperature_raises [of cpython] by (simp add: apology_def)
qed

subsection \<open>A visibility that is no number\<close>

lemma nested_get_dict:
  "nested_get (PDict kvs) outer inner d = py_get (dict_get kvs outer (PDict [])) inner d"
  by (simp add: nested_get_def)

lemma py_get_Inr: "py_get v k d = Inr r \<Longrightarrow> \<exists>kvs. v = PDict kvs \<and> r = dict_get kvs k d"
  by (cases v) simp_all

lemma checkwx_visibility_raises:
  assumes "map_of kvs ''visibility'' = Some (PDict vis)" and "map_of vis ''meters'' = Some v"
    and "v \<noteq> PStr ''N/A''" and "py_float rt v = Inl e"
  shows "\<exists>e'. checkwx_report rt (PDict kvs) = Inl e'"
proof (cases "checkwx_report rt (PDict kvs)")
  case (Inl e')
  then show ?thesis by blast
next
  case (Inr t)
  from checkwx_report_Inr [OF this] obtain visibility visibility_km
    where "nested_get (PDict kvs) ''visibility'' ''meters'' (PStr ''N/A'') = Inr visibility"
      and km: "checkwx_visibility_km rt visibility = Inr visibility_km"
    by blast
  with assms(1,2) have "visibility = v"
    by (simp add: nested_get_dict dict_get_def)
  with km assms(3,4) show ?thesis
    by (simp add: checkwx_visibility_km_def)
qed

lemma py_float_unknown: "py_float rt (PStr ''unknown'') = Inl ValueError"
  by code_simp

lemma py_float_ten_plus: "py_float rt (PStr ''10+'') = Inl ValueError"
  by code_simp

lemma py_float_na: "py_float rt (PStr ''N/A'') = Inl ValueError"
  by code_simp

lemma na_reports:
  "parse_metar_for_human rt na_meters_example =
     Inr (join_str newline2
            (response_lines ''N/A'' ''N/A'' (''N/A'' @ degree_sign @ '' at N/A knots'') ''N/A''
               no_cloud_data egkk_raw))"
  "parse_metar_for_human rt na_miles_example =
     Inr (join_str newline2
            (response_lines ''N/A'' ''N/A'' (''N/A'' @ degree_sign @ '' at N/A knots'') ''N/A''
               no_cloud_data egkk_raw))"
proof -
  have "\<not> primary_raises rt (fields_of na_meters_example)"
    by (simp add: primary_raises_def na_meters_example_def fields_of_def dict_get_def is_dict_def
        primary_meters_def primary_clouds_raise_def)
  then show "parse_metar_for_human rt na_meters_example =
     Inr (join_str newline2
            (response_lines ''N/A'' ''N/A'' (''N/A'' @ degree_sign @ '' at N/A knots'') ''N/A''
               no_cloud_data egkk_raw))"
    using parse_dict_exact [of rt "fields_of na_meters_example"]
    by (simp add: na_meters_example_def fields_of_def primary_lines_def dict_get_def py_str_def
        wind_info_def primary_visibility_text_def primary_meters_def primary_clouds_text_def)
  have "\<not> fallback_raises (fields_of na_miles_example)"
    by (simp add: fallback_raises_def na_miles_example_def fields_of_def)
  then show "parse_metar_for_human rt na_miles_example =
     Inr (join_str newline2
            (response_lines ''N/A'' ''N/A'' (''N/A'' @ degree_sign @ '' at N/A knots'') ''N/A''
               no_cloud_data egkk_raw))"
    using parse_dict_exact [of rt "fields_of na_miles_example"]
    by (simp add: na_miles_example_def fields_of_def fallback_lines_def dict_get_def py_str_def
        wind_info_def aviationweather_visibility_def fallback_clouds_text_def)
qed

lemma na_visibility_texts:
  "checkwx_visibility_km rt (PStr ''N/A'') = Inr ''N/A''"
  "aviationweather_visibility rt (PStr ''N/A'') = ''N/A''"
  by (simp_all add: checkwx_visibility_km_def aviationweather_visibility_def)

text \<open>
  C10, as the code has it. In the primary schema, a visibility in meters that is
  present, is not the text \<open>N/A\<close> and that \<open>float\<close> rejects makes the extraction raise,
  and the whole report is the single line \<open>Gatwick METAR: \<close> with the raw text
  (\<open>Data unavailable\<close> without a \<open>raw\<close> key): the other six lines are lost. In the
  fallback schema, a visibility in statute miles that is not the text \<open>N/A\<close> and that
  \<open>float\<close> rejects is shown as the original value followed by \<open>miles\<close> in the report of
  seven lines, which is returned whenever the cloud layers, the only other part of that
  extraction that can raise, do not. The text \<open>N/A\<close> itself is not converted in either
  schema: the visibility reads \<open>N/A\<close>.
\<close>

theorem visibility_degradation:
  "(map_of kvs ''raw_text'' = None \<and> map_of kvs ''visibility'' = Some (PDict vis)
      \<and> map_of vis ''meters'' = Some v \<and> v \<noteq> PStr ''N/A'' \<and> py_float rt v = Inl e
    \<longrightarrow> parse_metar_for_human rt (PDict kvs) =
          Inr (''Gatwick METAR: '' @ py_str rt (dict_get kvs ''raw'' (PStr ''Data unavailable''))))
   \<and> (map_of kvs ''raw_text'' = Some raw \<and> map_of kvs ''visibility_statute_mi'' = Some v
      \<and> v \<noteq> PStr ''N/A'' \<and> py_float rt v = Inl e
      \<and> aviationweather_clouds rt (PDict kvs) = Inr clouds
    \<longrightarrow> parse_metar_for_human rt (PDict kvs) =
          Inr (join_str newline2
                 (response_lines
                    (case map_of kvs ''observation_time'' of
                       None \<Rightarrow> ''N/A''
                     | Some t \<Rightarrow> shown_time rt t)
                    (py_str rt (dict_get kvs ''temp_c'' (PStr ''N/A'')))
                    (wind_info rt (dict_get kvs ''wind_dir_degrees'' (PStr ''N/A''))
                       (dict_get kvs ''wind_speed_kt'' (PStr ''N/A''))
                       (dict_get kvs ''wind_gust_kt'' (PStr [])))
                    (py_str rt v @ '' miles'')
                    clouds
                    (py_str rt raw))))
   \<and> checkwx_visibility_km rt (PStr ''N/A'') = Inr ''N/A''
   \<and> aviationweather_visibility rt (PStr ''N/A'') = ''N/A''"
proof -
  have "parse_metar_for_human rt (PDict kvs) =
          Inr (''Gatwick METAR: '' @ py_str rt (dict_get kvs ''raw'' (PStr ''Data unavailable'')))"
    if "map_of kvs ''raw_text'' = None" "map_of kvs ''visibility'' = Some (PDict vis)"
      "map_of vis ''meters'' = Some v" "v \<noteq> PStr ''N/A''" "py_float rt v = Inl e"
    using checkwx_visibility_raises [OF that(2-5)] that(1)
    by (auto simp: parse_primary_schema)
  moreover have "parse_metar_for_human rt (PDict kvs) =
          Inr (join_str newline2
                 (response_lines
                    (case map_of kvs ''observation_time'' of
                       None \<Rightarrow> ''N/A''
                     | Some t \<Rightarrow> shown_time rt t)
                    (py_str rt (dict_get kvs ''temp_c'' (PStr ''N/A'')))
                    (wind_info rt (dict_get kvs ''wind_dir_degrees'' (PStr ''N/A''))
                       (dict_get kvs ''wind_speed_kt'' (PStr ''N/A''))
                       (dict_get kvs ''wind_gust_kt'' (PStr [])))
                    (py_str rt v @ '' miles'')
                    clouds
                    (py_str rt raw)))"
    if "map_of kvs ''raw_text'' = Some raw" "map_of kvs ''visibility_statute_mi'' = Some v"
      "v \<noteq> PStr ''N/A''" "py_float rt v = Inl e"
      "aviationweather_clouds rt (PDict kvs) = Inr clouds"
    using that
    by (simp add: parse_fallback_schema aviationweather_report_dict dict_get_def
        aviationweather_visibility_def)
  ultimately show ?thesis
    using na_visibility_texts [of rt] by blast
qed

theorem visibility_degradation_witness:
  "parse_metar_for_human cpython unknown_meters_example = Inr (''Gatwick METAR: '' @ egkk_raw)
   \<and> parse_metar_for_human cpython ten_plus_miles_example =
       Inr (join_str newline2
              (response_lines ''N/A'' ''N/A'' (''N/A'' @ degree_sign @ '' at N/A knots'')
                 ''10+ miles'' no_cloud_data egkk_raw))"
proof -
  have clouds: "aviationweather_clouds cpython
      (PDict [(''raw_text'', PStr egkk_raw), (''visibility_statute_mi'', PStr ''10+'')]) =
      Inr no_cloud_data"
    by (simp add: aviationweather_clouds_def)
  show ?thesis
    using visibility_degradation [of "[(''raw'', PStr egkk_raw),
        (''visibility'', PDict [(''meters'', PStr ''unknown'')])]"
        "[(''meters'', PStr ''unknown'')]" "PStr ''unknown''" cpython ValueError]
      visibility_degradation [of "[(''raw_text'', PStr egkk_raw),
        (''visibility_statute_mi'', PStr ''10+'')]" _ "PStr ''10+''" cpython ValueError
        "PStr egkk_raw" no_cloud_data]
      py_float_unknown [of cpython] py_float_ten_plus [of cpython] clouds
    by (simp add: unknown_meters_example_def ten_plus_miles_example_def dict_get_def py_str_def
        wind_info_def)
qed

text \<open>
  C10 as stated fails for the text \<open>N/A\<close>: it is present and no number, yet line 118
  and line 180 skip the conversion, so the primary schema returns the report of seven
  lines, and the fallback schema shows \<open>N/A\<close> without the unit.
\<close>

theorem na_visibility_keeps_report:
  "map_of (fields_of na_meters_example) ''visibility'' = Some (PDict [(''meters'', PStr ''N/A'')])
   \<and> map_of (fields_of na_miles_example) ''visibility_statute_mi'' = Some (PStr ''N/A'')
   \<and> py_float cpython (PStr ''N/A'') = Inl ValueError
   \<and> parse_metar_for_human cpython na_meters_example =
       Inr (join_str newline2
              (response_lines ''N/A'' ''N/A'' (''N/A'' @ degree_sign @ '' at N/A knots'') ''N/A''
                 no_cloud_data egkk_raw))
   \<and> parse_metar_for_human cpython na_miles_example =
       Inr (join_str newline2
              (response_lines ''N/A'' ''N/A'' (''N/A'' @ degree_sign @ '' at N/A knots'') ''N/A''
                 no_cloud_data egkk_raw))"
  using py_float_na [of cpython] na_reports [of cpython]
  by (simp add: na_meters_example_def na_miles_example_def fields_of_def)

subsection \<open>The wind line\<close>

lemma py_truthy_iff:
  "py_truthy v \<longleftrightarrow>
     present_and_nonempty (Some v) \<and> v \<noteq> PBool False \<and> v \<noteq> PInt 0
     \<and> v \<noteq> PFloat (Finite False 0) \<and> v \<noteq> PFloat (Finite True 0)"
proof (cases v)
  case (PFloat x)
  then show ?thesis by (cases x) (auto simp: present_and_nonempty_def)
qed (auto simp: present_and_nonempty_def)

lemma aviationweather_wind:
  assumes "aviationweather_report rt (PDict kvs) = Inr t"
  shows "\<exists>obs temp vis clouds raw.
           t = join_str newline2
                 (response_lines obs temp
                    (wind_info rt (dict_get kvs ''wind_dir_degrees'' (PStr ''N/A''))
                       (dict_get kvs ''wind_speed_kt'' (PStr ''N/A''))
                       (dict_get kvs ''wind_gust_kt'' (PStr [])))
                    vis clouds raw)"
  using assms by (simp add: aviationweather_report_dict split: sum.splits) blast

lemma checkwx_wind:
  assumes "checkwx_report rt (PDict kvs) = Inr t"
  shows "\<exists>wind obs temp vis clouds raw.
           dict_get kvs ''wind'' (PDict []) = PDict wind
           \<and> t = join_str newline2
                 (response_lines obs temp
                    (wind_info rt (dict_get wind ''degrees'' (PStr ''N/A''))
                       (dict_get wind ''speed_kts'' (PStr ''N/A''))
                       (dict_get wind ''gust_kts'' (PStr [])))
                    vis clouds raw)"
proof -
  from checkwx_report_Inr [OF assms]
  obtain raw_metar observed temp_c wind_speed wind_direction wind_gust visibility_km clouds
    where s: "nested_get (PDict kvs) ''wind'' ''speed_kts'' (PStr ''N/A'') = Inr wind_speed"
      and d: "nested_get (PDict kvs) ''wind'' ''degrees'' (PStr ''N/A'') = Inr wind_direction"
      and g: "nested_get (PDict kvs) ''wind'' ''gust_kts'' (PStr []) = Inr wind_gust"
      and t: "t = join_str newline2
                 (response_lines (py_str rt observed) (py_str rt temp_c)
                    (wind_info rt wind_direction wind_speed wind_gust)
                    visibility_km clouds (py_str rt raw_metar))"
    by blast
  from s obtain wind where w: "dict_get kvs ''wind'' (PDict []) = PDict wind"
    and "wind_speed = dict_get wind ''speed_kts'' (PStr ''N/A'')"
    using py_get_Inr by (fastforce simp: nested_get_dict)
  moreover from d w have "wind_direction = dict_get wind ''degrees'' (PStr ''N/A'')"
    by (simp add: nested_get_dict)
  moreover from g w have "wind_gust = dict_get wind ''gust_kts'' (PStr [])"
    by (simp add: nested_get_dict)
  ultimately show ?thesis using t by blast
qed

lemma str_int_270: "str_int 270 = ''270''" by code_simp

lemma str_int_15: "str_int 15 = ''15''" by code_simp

lemma str_int_25: "str_int 25 = ''25''" by code_simp

lemma wind_examples:
  "wind_info rt (PInt 270) (PInt 15) (PStr []) = ''270'' @ degree_sign @ '' at 15 knots''"
  "wind_info rt (PInt 270) (PInt 15) (PInt 25) =
     ''270'' @ degree_sign @ '' at 15 knots, gusting to 25 knots''"
  "wind_info rt (PInt 270) (PInt 15) (PInt 0) = ''270'' @ degree_sign @ '' at 15 knots''"
  by (simp_all add: wind_info_def py_str_def str_int_270 str_int_15 str_int_25)

lemma gust_report:
  "parse_metar_for_human rt (PDict (gust_fields gust)) =
     Inr (join_str newline2
            (response_lines ''N/A'' ''N/A'' (wind_info rt (PInt 270) (PInt 15) gust) ''N/A''
               no_cloud_data egkk_raw))"
  by (simp add: gust_fields_def parse_fallback_schema aviationweather_report_dict dict_get_def
      aviationweather_visibility_def aviationweather_clouds_def py_str_def)

text \<open>
  C7, as the code has it. In both schemas the wind line is
  \<open>{direction}\<degree> at {speed} knots\<close>, and \<open>, gusting to {gust} knots\<close> is appended if and
  only if the gust value is truthy: present and non-empty and, for a number or a
  boolean, not zero and not false. An absent gust key reads as the empty text. The
  fallback schema takes the three values from \<open>wind_dir_degrees\<close>, \<open>wind_speed_kt\<close> and
  \<open>wind_gust_kt\<close>, the primary schema from \<open>degrees\<close>, \<open>speed_kts\<close> and \<open>gust_kts\<close> of
  the \<open>wind\<close> object. Direction 270 and speed 15 give \<open>270\<degree> at 15 knots\<close> with the
  empty gust and \<open>270\<degree> at 15 knots, gusting to 25 knots\<close> with gust 25.
\<close>

theorem wind_line:
  "wind_info rt direction speed gust =
     py_str rt direction @ degree_sign @ '' at '' @ py_str rt speed @ '' knots''
     @ (if present_and_nonempty (Some gust) \<and> gust \<noteq> PBool False \<and> gust \<noteq> PInt 0
           \<and> gust \<noteq> PFloat (Finite False 0) \<and> gust \<noteq> PFloat (Finite True 0)
        then '', gusting to '' @ py_str rt gust @ '' knots'' else [])
   \<and> (aviationweather_report rt (PDict kvs) = Inr t
      \<longrightarrow> (\<exists>obs temp vis clouds raw.
            t = join_str newline2
                  (response_lines obs temp
                     (wind_info rt (dict_get kvs ''wind_dir_degrees'' (PStr ''N/A''))
                        (dict_get kvs ''wind_speed_kt'' (PStr ''N/A''))
                        (dict_get kvs ''wind_gust_kt'' (PStr [])))
                     vis clouds raw)))
   \<and> (checkwx_report rt (PDict kvs) = Inr t
      \<longrightarrow> (\<exists>wind obs temp vis clouds raw.
            dict_get kvs ''wind'' (PDict []) = PDict wind
            \<and> t = join_str newline2
                  (response_lines obs temp
                     (wind_info rt (dict_get wind ''degrees'' (PStr ''N/A''))
                        (dict_get wind ''speed_kts'' (PStr ''N/A''))
                        (dict_get wind ''gust_kts'' (PStr [])))
                     vis clouds raw)))
   \<and> wind_info rt (PInt 270) (PInt 15) (PStr []) = ''270'' @ degree_sign @ '' at 15 knots''
   \<and> wind_info rt (PInt 270) (PInt 15) (PInt 25) =
       ''270'' @ degree_sign @ '' at 15 knots, gusting to 25 knots''"
proof -
  have "wind_info rt direction speed gust =
     py_str rt direction @ degree_sign @ '' at '' @ py_str rt speed @ '' knots''
     @ (if present_and_nonempty (Some gust) \<and> gust \<noteq> PBool False \<and> gust \<noteq> PInt 0
           \<and> gust \<noteq> PFloat (Finite False 0) \<and> gust \<noteq> PFloat (Finite True 0)
        then '', gusting to '' @ py_str rt gust @ '' knots'' else [])"
    using py_truthy_iff [of gust] by (simp add: wind_info_def)
  with aviationweather_wind [of rt kvs t] checkwx_wind [of rt kvs t] wind_examples(1,2) [of rt]
  show ?thesis by blast
qed

theorem wind_line_witness:
  "parse_metar_for_human cpython (PDict (gust_fields (PInt 25))) =
     Inr (join_str newline2
            (response_lines ''N/A'' ''N/A''
               (''270'' @ degree_sign @ '' at 15 knots, gusting to 25 knots'') ''N/A''
               no_cloud_data egkk_raw))
   \<and> parse_metar_for_human cpython (PDict (gust_fields (PStr []))) =
     Inr (join_str newline2
            (response_lines ''N/A'' ''N/A'' (''270'' @ degree_sign @ '' at 15 knots'') ''N/A''
               no_cloud_data egkk_raw))
   \<and> (\<exists>t. aviationweather_report cpython (PDict (gust_fields (PInt 25))) = Inr t
          \<and> (\<exists>obs temp vis clouds raw.
                t = join_str newline2
                      (response_lines obs temp
                         (''270'' @ degree_sign @ '' at 15 knots, gusting to 25 knots'')
                         vis clouds raw)))
   \<and> (\<exists>t. checkwx_report cpython checkwx_example = Inr t
          \<and> (\<exists>obs temp vis clouds raw.
                t = join_str newline2
                      (response_lines obs temp (''270'' @ degree_sign @ '' at 15 knots'')
                         vis clouds raw)))"
proof -
  from wind_line [of cpython "PInt 270" "PInt 15" "PInt 25"]
  have plain: "wind_info cpython (PInt 270) (PInt 15) (PStr []) =
       ''270'' @ degree_sign @ '' at 15 knots''"
    and gusting: "wind_info cpython (PInt 270) (PInt 15) (PInt 25) =
       ''270'' @ degree_sign @ '' at 15 knots, gusting to 25 knots''"
    by blast+
  obtain t where t: "aviationweather_report cpython (PDict (gust_fields (PInt 25))) = Inr t"
    by (auto simp: aviationweather_report_dict aviationweather_clouds_def gust_fields_def)
  from wind_line [of cpython _ _ _ "gust_fields (PInt 25)" t] t gusting
  have fallback: "\<exists>obs temp vis clouds raw.
      t = join_str newline2
            (response_lines obs temp
               (''270'' @ degree_sign @ '' at 15 knots, gusting to 25 knots'') vis clouds raw)"
    by (simp add: gust_fields_def dict_get_def)
  obtain u where u: "checkwx_report cpython checkwx_example = Inr u"
    using checkwx_example_extracted [of cpython] by blast
  from wind_line [of cpython _ _ _ "[(''raw'', PStr egkk_raw),
            (''observed'', PStr ''2024-01-01T05:20:00Z''),
            (''temperature'', PDict [(''celsius'', PInt 12)]),
            (''wind'', PDict [(''degrees'', PInt 270), (''speed_kts'', PInt 15)]),
            (''visibility'', PDict [(''meters'', PStr ''9000'')]),
            (''clouds'', PList [PDict [(''code'', PStr ''FEW''), (''base_feet_agl'', PInt 2500)]])]" u]
    u plain
  have primary: "\<exists>obs temp vis clouds raw.
      u = join_str newline2
            (response_lines obs temp (''270'' @ degree_sign @ '' at 15 knots'') vis clouds raw)"
    by (simp add: checkwx_example_def dict_get_def)
  from plain gusting gust_report [of cpython] t fallback u primary show ?thesis by simp
qed

text \<open>
  C7 as stated fails for a gust of zero: the value is present and is not empty, and
  the suffix is not appended.
\<close>

theorem zero_gust_omitted:
  "present_and_nonempty (map_of (gust_fields (PInt 0)) ''wind_gust_kt'')
   \<and> parse_metar_for_human cpython (PDict (gust_fields (PInt 0))) =
     Inr (join_str newline2
            (response_lines ''N/A'' ''N/A'' (''270'' @ degree_sign @ '' at 15 knots'') ''N/A''
               no_cloud_data egkk_raw))"
  using gust_report [of cpython "PInt 0"] wind_examples(3) [of cpython]
  by (simp add: gust_fields_def present_and_nonempty_def)

subsection \<open>Cloud layers\<close>

text \<open>
  Over layers that are dicts the loop raises nothing, keeps the order, and keeps a layer
  when both of its values are truthy.
\<close>

lemma cloud_layers_dicts:
  "cloud_layers rt code_key altitude_key (map PDict layers) =
     Inr (map (\<lambda>l. layer_entry rt (dict_get l code_key (PStr [])) (dict_get l altitude_key (PStr [])))
            (filter (\<lambda>l. py_truthy (dict_get l code_key (PStr []))
                         \<and> py_truthy (dict_get l altitude_key (PStr []))) layers))"
  by (induction layers) simp_all

text \<open>
  C8. A layer is to contribute \<open>{cover} at {altitude} ft\<close> exactly when its cover code
  and its altitude are present and non-empty. The test of lines 127 and 195,
  \<open>if code and altitude\<close>, is false for the altitude 0: for an overcast layer with its
  base on the ground, both fields present and not empty, the clouds line of the report
  is \<open>No cloud data\<close>.
\<close>

theorem ground_layer_dropped:
  "present_and_nonempty (map_of ground_layer ''code'')
   \<and> present_and_nonempty (map_of ground_layer ''base_feet_agl'')
   \<and> checkwx_clouds cpython fog_example = Inr no_cloud_data
   \<and> parse_metar_for_human cpython fog_example =
       Inr (join_str newline2
              (response_lines ''N/A'' ''N/A'' (''N/A'' @ degree_sign @ '' at N/A knots'') ''N/A''
                 no_cloud_data fog_raw))"
  by (simp add: fog_example_def ground_layer_def present_and_nonempty_def checkwx_clouds_def
      join_layers_def parse_primary_schema checkwx_report_def nested_get_def dict_get_def
      checkwx_visibility_km_def py_str_def wind_info_def)

subsection \<open>Rounding to a double and to one decimal\<close>








subsection \<open>Visibility\<close>









end
